theory Spec2Isabelle
  imports Complex_Main "HOL-Library.Product_Lexorder"
begin

section \<open>The Python values and builtins that gps.py relies on\<close>

text \<open>
  The embedding follows \<^verbatim>\<open>src/gps/gps.py\<close> under the semantics of Python 3.
  A \<^verbatim>\<open>str\<close> and a \<^verbatim>\<open>bytes\<close> object are both lists of 8-bit characters; the
  type synonym \<open>bytes\<close> marks the places where the source holds a bytes object.
  A Python \<^verbatim>\<open>float\<close> is modelled by the real number it denotes. The fields of a
  sentence are read as the decimal numbers they spell and a coordinate is computed
  from them exactly; the arithmetic of the speed conversion rounds every result to
  binary64; infinities and NaN have no value in the model. An exception is a value
  of the type \<open>error\<close>.
\<close>

datatype error = ValueError | IndexError | TypeError

type_synonym bytes = string

type_synonym pytime = "int \<times> int \<times> real"

definition CR :: char where
  "CR = CHR 0x0D"

definition LF :: char where
  "LF = CHR 0x0A"

text \<open>\<^verbatim>\<open>s[a:]\<close>, \<^verbatim>\<open>s[0:b]\<close> and \<^verbatim>\<open>s[a:b]\<close> for non-negative constants are
  \<open>drop a s\<close>, \<open>take b s\<close> and \<open>drop a (take b s)\<close>; a slice never raises.\<close>

text \<open>\<^verbatim>\<open>segment.split(",")\<close>: the fields between the commas, empty fields kept; the
  empty string splits into one empty field.\<close>

fun split_comma :: "string \<Rightarrow> string list" where
  "split_comma [] = [[]]"
| "split_comma (c # cs) =
     (if c = CHR '','' then [] # split_comma cs
      else (case split_comma cs of
              [] \<Rightarrow> [[c]]
            | w # ws \<Rightarrow> (c # w) # ws))"

text \<open>
  A character of a \<^verbatim>\<open>str\<close> is its code point, here below 256. \<^verbatim>\<open>int()\<close> and
  \<^verbatim>\<open>float()\<close> strip white space from both ends of their argument: the ASCII
  characters 9 to 13 and 32, and the two spaces beyond ASCII, 0x85 and 0xA0. The
  characters 0x1C to 0x1F are not stripped.
\<close>

definition digit_val :: "char \<Rightarrow> nat option" where
  "digit_val c = map_of (zip ''0123456789'' [0, 1, 2, 3, 4, 5, 6, 7, 8, 9]) c"

definition is_digit :: "char \<Rightarrow> bool" where
  "is_digit c = (digit_val c \<noteq> None)"

definition is_space :: "char \<Rightarrow> bool" where
  "is_space c =
     (c = CHR 0x09 \<or> c = CHR 0x0A \<or> c = CHR 0x0B \<or> c = CHR 0x0C \<or> c = CHR 0x0D
      \<or> c = CHR '' '' \<or> c = CHR 0x85 \<or> c = CHR 0xA0)"

definition strip :: "string \<Rightarrow> string" where
  "strip s = rev (dropWhile is_space (rev (dropWhile is_space s)))"

text \<open>
  Underscores in a numeric literal: each must stand between two digits. The first
  argument is the character before, the null character at the start.
\<close>

fun underscores_ok :: "char \<Rightarrow> string \<Rightarrow> bool" where
  "underscores_ok prev [] = (prev \<noteq> CHR ''_'')"
| "underscores_ok prev (c # cs) =
     ((if c = CHR ''_'' then is_digit prev
       else if prev = CHR ''_'' then is_digit c
       else True) \<and>
      underscores_ok c cs)"

definition drop_underscores :: "string \<Rightarrow> string" where
  "drop_underscores s = filter (\<lambda>c. c \<noteq> CHR ''_'') s"

text \<open>The value of a run of decimal digits, most significant first; \<open>None\<close> when a
  character is not a digit.\<close>

fun digits_val :: "string \<Rightarrow> nat \<Rightarrow> nat option" where
  "digits_val [] acc = Some acc"
| "digits_val (c # cs) acc =
     (case digit_val c of
        None \<Rightarrow> None
      | Some d \<Rightarrow> digits_val cs (10 * acc + d))"

text \<open>An optional sign in front of a literal: whether it is a minus, and the rest.\<close>

fun take_sign :: "string \<Rightarrow> bool \<times> string" where
  "take_sign [] = (False, [])"
| "take_sign (c # cs) =
     (if c = CHR ''-'' then (True, cs)
      else if c = CHR ''+'' then (False, cs)
      else (False, c # cs))"

text \<open>
  \<^verbatim>\<open>int(s)\<close> for a string: white space stripped, an optional sign, then one or more
  decimal digits, with single underscores allowed between digits; anything else
  raises ValueError. So does a literal of more than 4300 digits, leading zeros
  counted, which is the default limit of CPython from version 3.11 on.
\<close>

definition int_py :: "string \<Rightarrow> error + int" where
  "int_py s =
     (case take_sign (strip s) of (neg, body) \<Rightarrow>
        if \<not> underscores_ok (CHR 0x00) body then Inl ValueError
        else if drop_underscores body = [] then Inl ValueError
        else if 4300 < length (drop_underscores body) then Inl ValueError
        else (case digits_val (drop_underscores body) 0 of
                None \<Rightarrow> Inl ValueError
              | Some n \<Rightarrow> Inr (if neg then - int n else int n)))"

text \<open>
  \<^verbatim>\<open>float(s)\<close> for a string in decimal notation: white space stripped, underscores
  between digits taken out, an optional sign, digits with an optional fraction (at
  least one digit before or after the point) and an optional decimal exponent. The
  result is the real number the literal denotes; the rounding of that number to
  binary64 is not applied here. \<^verbatim>\<open>float()\<close> also accepts the spellings of infinity
  and NaN (\<^verbatim>\<open>inf\<close>, \<^verbatim>\<open>infinity\<close>, \<^verbatim>\<open>nan\<close>, in any case, with a sign), which
  have no value among the reals: the model raises ValueError for them as for every
  other string, so a statement below that says a field is accepted speaks of
  decimal notation only, and none rests on the rejection of such a spelling.
\<close>

definition exponent_py :: "string \<Rightarrow> int option" where
  "exponent_py s =
     (case s of
        [] \<Rightarrow> Some 0
      | c # cs \<Rightarrow>
          if c = CHR ''e'' \<or> c = CHR ''E'' then
            (case take_sign cs of (neg, body) \<Rightarrow>
               if body = [] then None
               else (case digits_val body 0 of
                       None \<Rightarrow> None
                     | Some n \<Rightarrow> Some (if neg then - int n else int n)))
          else None)"

definition scale10 :: "real \<Rightarrow> int \<Rightarrow> real" where
  "scale10 x e = (if e < 0 then x / 10 ^ nat (- e) else x * 10 ^ nat e)"

definition float_py :: "string \<Rightarrow> error + real" where
  "float_py s =
     (if \<not> underscores_ok (CHR 0x00) (strip s) then Inl ValueError
      else
        case take_sign (drop_underscores (strip s)) of (neg, body) \<Rightarrow>
        let ip = takeWhile is_digit body;
            r1 = dropWhile is_digit body;
            fp = (case r1 of [] \<Rightarrow> [] | c # cs \<Rightarrow> if c = CHR ''.'' then takeWhile is_digit cs else []);
            r2 = (case r1 of [] \<Rightarrow> [] | c # cs \<Rightarrow> if c = CHR ''.'' then dropWhile is_digit cs else r1)
        in if ip = [] \<and> fp = [] then Inl ValueError
           else (case (digits_val ip 0, digits_val fp 0, exponent_py r2) of
                   (Some i, Some f, Some e) \<Rightarrow>
                     let m = scale10 (real i + real f / 10 ^ length fp) e
                     in Inr (if neg then - m else m)
                 | _ \<Rightarrow> Inl ValueError))"

text \<open>
  \<^verbatim>\<open>"%s" % (b,)\<close> for a bytes object \<open>b\<close> is its \<^verbatim>\<open>repr\<close>: the letter b, a quote,
  the escaped bytes, the quote. The quote is the apostrophe unless \<open>b\<close> holds an
  apostrophe and no double quote.
\<close>

definition hex_digit :: "nat \<Rightarrow> char" where
  "hex_digit n = ''0123456789abcdef'' ! (n mod 16)"

definition repr_byte :: "char \<Rightarrow> char \<Rightarrow> string" where
  "repr_byte q c =
     (if c = q \<or> c = CHR 0x5C then [CHR 0x5C, c]
      else if c = CHR 0x09 then [CHR 0x5C, CHR ''t'']
      else if c = CHR 0x0A then [CHR 0x5C, CHR ''n'']
      else if c = CHR 0x0D then [CHR 0x5C, CHR ''r'']
      else if (of_char c :: nat) < 32 \<or> (of_char c :: nat) \<ge> 127
        then [CHR 0x5C, CHR ''x'', hex_digit (of_char c div 16), hex_digit (of_char c)]
      else [c])"

definition bytes_repr :: "bytes \<Rightarrow> string" where
  "bytes_repr b =
     (let q = (if CHR 0x27 \<in> set b \<and> CHR 0x22 \<notin> set b then CHR 0x22 else CHR 0x27)
      in [CHR ''b'', q] @ concat (map (repr_byte q) b) @ [q])"

section \<open>The value model\<close>

text \<open>
  Class \<^verbatim>\<open>Value\<close>: a float, a unit and the time of the measurement. The fields are
  read through \<^verbatim>\<open>value()\<close>, \<^verbatim>\<open>unit()\<close> and \<^verbatim>\<open>time()\<close>; the first is
  called \<open>val\<close> here. \<^verbatim>\<open>Value.__init__\<close> stores \<^verbatim>\<open>float(v)\<close>: where the caller
  passes a float this is \<open>v\<close> itself, and where the caller passes a field of the sentence
  (a string) the call of \<open>float_py\<close> is written at the call site, where it may raise.
\<close>

record Value =
  val :: real
  unit :: string
  time :: pytime

definition Value_init :: "real \<Rightarrow> string \<Rightarrow> pytime \<Rightarrow> Value" where
  "Value_init v u t = \<lparr>val = v, unit = u, time = t\<rparr>"

definition Distance :: "real \<Rightarrow> string \<Rightarrow> pytime \<Rightarrow> Value" where
  "Distance v u t = Value_init v u t"

definition Position :: "real \<Rightarrow> string \<Rightarrow> pytime \<Rightarrow> Value" where
  "Position v u t = Value_init (if u = ''N'' \<or> u = ''E'' then v else - v) u t"

definition Speed :: "real \<Rightarrow> string \<Rightarrow> pytime \<Rightarrow> Value" where
  "Speed v u t = Value_init v u t"

text \<open>
  The arithmetic of \<^verbatim>\<open>Speed\<close> is that of binary64. \<open>round64 x\<close> is the binary64
  number nearest to the real \<open>x\<close>, a tie going to the even significand: \<open>quantum x\<close>
  is the distance between neighbouring binary64 numbers at the magnitude of \<open>x\<close> (with
  53 bits of significand, and the fixed spacing of the subnormal range below
  \<open>2 powr - 1022\<close>), and \<open>x\<close> is rounded to a multiple of it. A product or quotient
  of two floats is the rounded exact result. Python gives an infinity where the
  rounded result reaches \<open>2 ^ 1024\<close>; \<open>round64\<close> has no such value, so the statements
  about a product are made below that bound. \<open>bit_length\<close> is the number of binary
  digits of a natural number.
\<close>

fun bit_length :: "nat \<Rightarrow> nat" where
  "bit_length n = (if n = 0 then 0 else Suc (bit_length (n div 2)))"

declare bit_length.simps [simp del]

definition pow2 :: "int \<Rightarrow> real" where
  "pow2 k = (if 0 \<le> k then 2 ^ nat k else 1 / 2 ^ nat (- k))"

definition exponent64 :: "real \<Rightarrow> int" where
  "exponent64 x =
     (if 1 \<le> \<bar>x\<bar> then int (bit_length (nat \<lfloor>\<bar>x\<bar>\<rfloor>)) - 1
      else - int (bit_length (nat (\<lceil>1 / \<bar>x\<bar>\<rceil> - 1))))"

definition quantum :: "real \<Rightarrow> real" where
  "quantum x = pow2 (max (exponent64 x) (- 1022) - 52)"

definition round_half_even :: "real \<Rightarrow> int" where
  "round_half_even y =
     (if y - of_int \<lfloor>y\<rfloor> < 1 / 2 then \<lfloor>y\<rfloor>
      else if 1 / 2 < y - of_int \<lfloor>y\<rfloor> then \<lfloor>y\<rfloor> + 1
      else if even \<lfloor>y\<rfloor> then \<lfloor>y\<rfloor>
      else \<lfloor>y\<rfloor> + 1)"

definition round64 :: "real \<Rightarrow> real" where
  "round64 x = (if x = 0 then 0 else quantum x * of_int (round_half_even (x / quantum x)))"

text \<open>The literal \<^verbatim>\<open>1.85200\<close> of \<^verbatim>\<open>to_kmh\<close> and \<^verbatim>\<open>to_knot\<close> is the binary64
  number nearest to 1.852.\<close>

definition knot_factor :: real where
  "knot_factor = round64 1.85200"

definition to_kmh :: "Value \<Rightarrow> Value" where
  "to_kmh s =
     (if unit s = ''knot'' \<or> unit s = ''N''
      then Speed (round64 (val s * knot_factor)) ''kmh'' (time s)
      else s)"

definition to_knot :: "Value \<Rightarrow> Value" where
  "to_knot s =
     (if unit s = ''kmh'' \<or> unit s = ''K''
      then Speed (round64 (val s / knot_factor)) ''knot'' (time s)
      else s)"

definition HDOP :: "real \<Rightarrow> pytime \<Rightarrow> Value" where
  "HDOP v t = Value_init v '''' t"

definition HDOP_str :: "Value \<Rightarrow> string" where
  "HDOP_str h =
     (if val h < 1 then ''Ide.''
      else if val h \<le> 2 then ''Exe.''
      else if val h \<le> 5 then ''Good''
      else if val h \<le> 10 then ''Mod.''
      else if val h \<le> 20 then ''Fair''
      else ''Poor'')"

definition Course :: "real \<Rightarrow> pytime \<Rightarrow> Value" where
  "Course v t = Value_init v ''D'' t"

text \<open>
  \<^verbatim>\<open>a < b\<close> on two time tuples, as Python compares tuples: the first position where
  the two differ decides.
\<close>

fun tuple_lt :: "pytime \<Rightarrow> pytime \<Rightarrow> bool" where
  "tuple_lt (h1, m1, s1) (h2, m2, s2) =
     (if h1 \<noteq> h2 then h1 < h2 else if m1 \<noteq> m2 then m1 < m2 else s1 < s2)"

section \<open>The location and its update from one sentence\<close>

text \<open>
  Class \<^verbatim>\<open>Location\<close>. The private attributes \<^verbatim>\<open>__valid\<close>, \<^verbatim>\<open>__lat\<close>, ... are
  the fields \<open>f_valid\<close>, \<open>f_lat\<close>, ...; \<open>None\<close> is Python's \<^verbatim>\<open>None\<close>. The accessor
  methods of the class keep their names (\<open>valid\<close>, \<open>latitude\<close>, ...).
\<close>

record Location =
  f_valid :: bool
  f_lat :: "Value option"
  f_long :: "Value option"
  f_alt :: "Value option"
  f_height :: "Value option"
  f_speed :: "Value option"
  f_course :: "Value option"
  f_satellites :: int
  f_hdop :: "Value option"

definition Location_init :: Location where
  "Location_init =
     \<lparr>f_valid = False, f_lat = None, f_long = None, f_alt = None, f_height = None,
      f_speed = None, f_course = None, f_satellites = - 1, f_hdop = None\<rparr>"

definition seg_set :: "string list \<Rightarrow> nat \<Rightarrow> bool" where
  "seg_set d i = (length d \<ge> i + 1 \<and> length (d ! i) \<noteq> 0 \<and> CHR ''*'' \<notin> set (d ! i))"

text \<open>The test \<^verbatim>\<open>self.__x is None or self.__x.time() < t\<close> that every setter makes.\<close>

definition unset_or_older :: "Value option \<Rightarrow> pytime \<Rightarrow> bool" where
  "unset_or_older x t = (case x of None \<Rightarrow> True | Some m \<Rightarrow> tuple_lt (time m) t)"

text \<open>
  The setters. Each returns the updated location, or the exception that \<^verbatim>\<open>float\<close>
  raised; the attribute is assigned after the float is parsed, so a setter that raises
  leaves the location as it was.
\<close>

definition set_hdop :: "string \<Rightarrow> pytime \<Rightarrow> Location \<Rightarrow> error + Location" where
  "set_hdop v t s =
     (if length v = 0 then Inr s
      else if unset_or_older (f_hdop s) t then
        (case float_py v of
           Inl e \<Rightarrow> Inl e
         | Inr x \<Rightarrow> Inr (s\<lparr>f_hdop := Some (HDOP x t)\<rparr>))
      else Inr s)"

definition set_speed :: "string \<Rightarrow> string \<Rightarrow> pytime \<Rightarrow> Location \<Rightarrow> error + Location" where
  "set_speed v u t s =
     (if length v = 0 then Inr s
      else if unset_or_older (f_speed s) t then
        (case float_py v of
           Inl e \<Rightarrow> Inl e
         | Inr x \<Rightarrow> Inr (s\<lparr>f_speed := Some (Speed x u t)\<rparr>))
      else Inr s)"

definition set_course :: "string \<Rightarrow> pytime \<Rightarrow> Location \<Rightarrow> error + Location" where
  "set_course v t s =
     (if length v = 0 then Inr s
      else if unset_or_older (f_course s) t then
        (case float_py v of
           Inl e \<Rightarrow> Inl e
         | Inr x \<Rightarrow> Inr (s\<lparr>f_course := Some (Course x t)\<rparr>))
      else Inr s)"

definition set_lat :: "string \<Rightarrow> string \<Rightarrow> pytime \<Rightarrow> Location \<Rightarrow> error + Location" where
  "set_lat v d t s =
     (if length v = 0 then Inr s
      else if unset_or_older (f_lat s) t then
        (case float_py (take 2 v) of
           Inl e \<Rightarrow> Inl e
         | Inr a \<Rightarrow>
             (case float_py (drop 2 v) of
                Inl e \<Rightarrow> Inl e
              | Inr b \<Rightarrow> Inr (s\<lparr>f_lat := Some (Position (a + b / 60) d t)\<rparr>)))
      else Inr s)"

definition set_long :: "string \<Rightarrow> string \<Rightarrow> pytime \<Rightarrow> Location \<Rightarrow> error + Location" where
  "set_long v d t s =
     (if length v = 0 then Inr s
      else if unset_or_older (f_long s) t then
        (case float_py (take 3 v) of
           Inl e \<Rightarrow> Inl e
         | Inr a \<Rightarrow>
             (case float_py (drop 3 v) of
                Inl e \<Rightarrow> Inl e
              | Inr b \<Rightarrow> Inr (s\<lparr>f_long := Some (Position (a + b / 60) d t)\<rparr>)))
      else Inr s)"

definition time_from_seg :: "string \<Rightarrow> error + pytime" where
  "time_from_seg ts =
     (case int_py (take 2 ts) of
        Inl e \<Rightarrow> Inl e
      | Inr h \<Rightarrow>
          (case int_py (drop 2 (take 4 ts)) of
             Inl e \<Rightarrow> Inl e
           | Inr m \<Rightarrow>
               (case float_py (drop 4 ts) of
                  Inl e \<Rightarrow> Inl e
                | Inr sec \<Rightarrow> Inr (h, m, sec))))"

text \<open>
  The statements of one branch of \<^verbatim>\<open>set\<close> run in order. The first one that raises
  ends the branch: the exception leaves the method together with the location as the
  earlier statements left it.
\<close>

fun run :: "(Location \<Rightarrow> error + Location) list \<Rightarrow> Location \<Rightarrow> error option \<times> Location" where
  "run [] s = (None, s)"
| "run (f # fs) s =
     (case f s of
        Inl e \<Rightarrow> (Some e, s)
      | Inr s' \<Rightarrow> run fs s')"

text \<open>
  The branch of \<^verbatim>\<open>set\<close> for \<^verbatim>\<open>$GPGGA\<close> (lines 170 to 186). After the two
  setters come four \<^verbatim>\<open>if\<close> statements, each a step of its own here: the satellite
  count (lines 176, 177), the HDOP (179, 180), the altitude (182, 183) and the height
  (185, 186).
\<close>

definition GGA_satellites :: "string list \<Rightarrow> Location \<Rightarrow> error + Location" where
  "GGA_satellites data s =
     (if f_satellites s < 0 \<and> seg_set data 6 then
        (case int_py (data ! 6) of
           Inl e \<Rightarrow> Inl e
         | Inr n \<Rightarrow> Inr (s\<lparr>f_satellites := n\<rparr>))
      else Inr s)"

definition GGA_hdop :: "string list \<Rightarrow> pytime \<Rightarrow> Location \<Rightarrow> error + Location" where
  "GGA_hdop data t s = (if seg_set data 7 then set_hdop (data ! 7) t s else Inr s)"

definition GGA_alt :: "string list \<Rightarrow> pytime \<Rightarrow> Location \<Rightarrow> error + Location" where
  "GGA_alt data t s =
     (if seg_set data 8 then
        (case float_py (data ! 8) of
           Inl e \<Rightarrow> Inl e
         | Inr a \<Rightarrow>
             Inr (s\<lparr>f_alt := Some (Distance a (if \<not> seg_set data 9 then ''M'' else data ! 9) t)\<rparr>))
      else Inr s)"

definition GGA_height :: "string list \<Rightarrow> pytime \<Rightarrow> Location \<Rightarrow> error + Location" where
  "GGA_height data t s =
     (if seg_set data 10 then
        (case float_py (data ! 10) of
           Inl e \<Rightarrow> Inl e
         | Inr h \<Rightarrow>
             Inr (s\<lparr>f_height := Some (Distance h (if \<not> seg_set data 11 then ''M'' else data ! 10) t)\<rparr>))
      else Inr s)"

definition set_GGA :: "string list \<Rightarrow> Location \<Rightarrow> error option \<times> Location" where
  "set_GGA data s =
     (if length data \<ge> 6 \<and> (data ! 5 = ''1'' \<or> data ! 5 = ''2'' \<or> data ! 5 = ''6'') then
        (case time_from_seg (data ! 0) of
           Inl e \<Rightarrow> (Some e, s)
         | Inr t \<Rightarrow>
             run [set_lat (data ! 1) (data ! 2) t,
                  set_long (data ! 3) (data ! 4) t,
                  GGA_satellites data,
                  GGA_hdop data t,
                  GGA_alt data t,
                  GGA_height data t] s)
      else (None, s))"

text \<open>The branch for \<^verbatim>\<open>$GPGLL\<close> (lines 187 to 191).\<close>

definition set_GLL :: "string list \<Rightarrow> Location \<Rightarrow> error option \<times> Location" where
  "set_GLL data s =
     (if length data \<ge> 6 \<and> data ! 5 = ''A'' then
        (case time_from_seg (data ! 4) of
           Inl e \<Rightarrow> (Some e, s)
         | Inr t \<Rightarrow>
             run [set_lat (data ! 0) (data ! 1) t,
                  set_long (data ! 2) (data ! 3) t] s)
      else (None, s))"

text \<open>
  The branch for \<^verbatim>\<open>$GPRMC\<close> (lines 192 to 198). The guard asks for six fields and
  the body reads \<^verbatim>\<open>data[6]\<close> and \<^verbatim>\<open>data[7]\<close>: with fewer fields the index raises
  IndexError, after latitude and longitude were set.
\<close>

definition RMC_speed :: "string list \<Rightarrow> pytime \<Rightarrow> Location \<Rightarrow> error + Location" where
  "RMC_speed data t s =
     (if 6 < length data then set_speed (data ! 6) ''N'' t s else Inl IndexError)"

definition RMC_course :: "string list \<Rightarrow> pytime \<Rightarrow> Location \<Rightarrow> error + Location" where
  "RMC_course data t s =
     (if 7 < length data then set_course (data ! 7) t s else Inl IndexError)"

definition set_RMC :: "string list \<Rightarrow> Location \<Rightarrow> error option \<times> Location" where
  "set_RMC data s =
     (if length data \<ge> 6 \<and> data ! 1 = ''A'' then
        (case time_from_seg (data ! 0) of
           Inl e \<Rightarrow> (Some e, s)
         | Inr t \<Rightarrow>
             run [set_lat (data ! 2) (data ! 3) t,
                  set_long (data ! 4) (data ! 5) t,
                  RMC_speed data t,
                  RMC_course data t] s)
      else (None, s))"

text \<open>
  The branch for \<^verbatim>\<open>$GPVTG\<close> (lines 199 to 202). Its second statement is
  \<^verbatim>\<open>self.__set_course(data[5], data[0], (0, 0, 0.0))\<close>: three arguments for the two
  parameters \<open>v\<close> and \<open>t\<close> of \<^verbatim>\<open>__set_course\<close> (line 256), so the call raises TypeError
  before the body of \<^verbatim>\<open>__set_course\<close> runs.
\<close>

definition VTG_course :: "string list \<Rightarrow> Location \<Rightarrow> error + Location" where
  "VTG_course data s = Inl TypeError"

definition set_VTG :: "string list \<Rightarrow> Location \<Rightarrow> error option \<times> Location" where
  "set_VTG data s =
     (if length data \<ge> 7 \<and> data ! 2 = ''T'' then
        run [set_speed (data ! 4) (data ! 6) (0, 0, 0),
             VTG_course data] s
      else (None, s))"

text \<open>The branch for \<^verbatim>\<open>$GPGSV\<close> (lines 203 to 205).\<close>

definition GSV_satellites :: "string list \<Rightarrow> Location \<Rightarrow> error + Location" where
  "GSV_satellites data s =
     (case int_py (data ! 2) of
        Inl e \<Rightarrow> Inl e
      | Inr n \<Rightarrow> Inr (s\<lparr>f_satellites := n\<rparr>))"

definition set_GSV :: "string list \<Rightarrow> Location \<Rightarrow> error option \<times> Location" where
  "set_GSV data s =
     (if seg_set data 2 \<and> data ! 0 = data ! 1 then run [GSV_satellites data] s
      else (None, s))"

text \<open>
  \<^verbatim>\<open>Location.set(msgid, segment)\<close>: \<open>dispatch\<close> is its chain of \<^verbatim>\<open>if\<close> and
  \<^verbatim>\<open>elif\<close> over the identifier (lines 170 to 207), and \<open>Location_set\<close> the whole
  method. The result is what the method returns (the new \<^verbatim>\<open>valid()\<close>) or the
  exception that leaves it, and the location afterwards. When an exception leaves the
  method, line 210 is not reached and \<open>f_valid\<close> keeps its value.
\<close>

definition dispatch :: "bytes \<Rightarrow> string list \<Rightarrow> Location \<Rightarrow> error option \<times> Location" where
  "dispatch msgid data s =
     (if msgid = ''$GPGGA'' then set_GGA data s
      else if msgid = ''$GPGLL'' then set_GLL data s
      else if msgid = ''$GPRMC'' then set_RMC data s
      else if msgid = ''$GPVTG'' then set_VTG data s
      else if msgid = ''$GPGSV'' then set_GSV data s
      else if msgid = ''$GPMSS'' then (None, s)
      else (None, s))"

definition Location_set :: "bytes \<Rightarrow> string \<Rightarrow> Location \<Rightarrow> (error + bool) \<times> Location" where
  "Location_set msgid segment s =
     (let data = split_comma segment in
      case dispatch msgid data s of
        (Some e, s') \<Rightarrow> (Inl e, s')
      | (None, s') \<Rightarrow>
          (let s'' = s'\<lparr>f_valid := (if f_lat s' = None \<or> f_long s' = None then False else True)\<rparr>
           in (Inr (f_valid s''), s'')))"

text \<open>
  The accessors. Each returns the value, or Python's \<^verbatim>\<open>False\<close> where the field is
  unset: \<open>None\<close> stands for that \<^verbatim>\<open>False\<close>. \<^verbatim>\<open>longitude()\<close> reads \<^verbatim>\<open>__lat\<close> and
  \<^verbatim>\<open>latitude()\<close> reads \<^verbatim>\<open>__long\<close> (lines 305 to 315).
\<close>

definition valid :: "Location \<Rightarrow> bool" where
  "valid s = f_valid s"

definition longitude :: "Location \<Rightarrow> real option" where
  "longitude s = (case f_lat s of Some x \<Rightarrow> Some (val x) | None \<Rightarrow> None)"

definition latitude :: "Location \<Rightarrow> real option" where
  "latitude s = (case f_long s of Some x \<Rightarrow> Some (val x) | None \<Rightarrow> None)"

definition altitude :: "Location \<Rightarrow> real option" where
  "altitude s = (case f_alt s of Some x \<Rightarrow> Some (val x) | None \<Rightarrow> None)"

definition height :: "Location \<Rightarrow> real option" where
  "height s = (case f_height s of Some x \<Rightarrow> Some (val x) | None \<Rightarrow> None)"

definition speed :: "Location \<Rightarrow> real option" where
  "speed s = (case f_speed s of Some x \<Rightarrow> Some (val x) | None \<Rightarrow> None)"

definition course :: "Location \<Rightarrow> real option" where
  "course s = (case f_course s of Some x \<Rightarrow> Some (val x) | None \<Rightarrow> None)"

definition satellites :: "Location \<Rightarrow> int option" where
  "satellites s = (if f_satellites s \<ge> 0 then Some (f_satellites s) else None)"

definition hdop :: "Location \<Rightarrow> Value option" where
  "hdop s = f_hdop s"

section \<open>The framer: one decode cycle\<close>

text \<open>
  Class \<^verbatim>\<open>Data\<close>. The serial port is the list of the lines that
  \<^verbatim>\<open>readline()\<close> will return while \<^verbatim>\<open>any()\<close> is true, and \<open>now\<close> is the reading of
  \<^verbatim>\<open>time.time()\<close> during the cycle. \<open>d_data\<close> is the attribute \<^verbatim>\<open>__data\<close>.
\<close>

record Data =
  d_data :: Location
  last_update :: real

text \<open>
  \<^verbatim>\<open>__update(data)\<close> (lines 398 to 415). \<^verbatim>\<open>data[len(data)-1:len(data)]\<close> is the last
  byte as a bytes object, empty for empty data. Where that byte is not a line feed the
  source runs \<^verbatim>\<open>data += '\n'\<close>, a \<^verbatim>\<open>str\<close> added to a \<^verbatim>\<open>bytes\<close> object, which in
  Python 3 raises TypeError. The second argument of \<^verbatim>\<open>set\<close> is \<open>payload b\<close>:
  \<^verbatim>\<open>data[7:len(data)-2]\<close> is \<open>drop 7 (take (length b - 2) b)\<close>, also when \<open>b\<close> has
  fewer than two bytes, and \<^verbatim>\<open>[2:-1]\<close> takes the letter b and the quotes off the
  \<^verbatim>\<open>repr\<close>.
\<close>

definition last_byte :: "bytes \<Rightarrow> bytes" where
  "last_byte b = drop (length b - 1) b"

definition payload :: "bytes \<Rightarrow> string" where
  "payload b = drop 2 (butlast (bytes_repr (drop 7 (take (length b - 2) b))))"

definition update :: "real \<Rightarrow> bytes list \<Rightarrow> Data \<Rightarrow> error option \<times> Data" where
  "update now data d =
     (if length data = 0 then (None, d)
      else
        let b = concat data in
        if last_byte b \<noteq> [LF] \<and> last_byte b \<noteq> [CR] then (None, d)
        else if last_byte b \<noteq> [LF] then (Some TypeError, d)
        else
          (case Location_set (take 6 b) (payload b) (d_data d) of
             (Inl e, loc) \<Rightarrow> (Some e, d\<lparr>d_data := loc\<rparr>)
           | (Inr v, loc) \<Rightarrow>
               (None, if v then d\<lparr>d_data := loc, last_update := now\<rparr> else d\<lparr>d_data := loc\<rparr>)))"

text \<open>
  The loop of \<^verbatim>\<open>new_location\<close> (lines 376 to 385) over the lines still to read, with
  the buffer \<open>data\<close>; the \<^verbatim>\<open>else\<close> of the \<^verbatim>\<open>while\<close> flushes the last buffer.
\<close>

fun read_lines :: "real \<Rightarrow> bytes list \<Rightarrow> bytes list \<Rightarrow> Data \<Rightarrow> error option \<times> Data" where
  "read_lines now [] data d = update now data d"
| "read_lines now (tmp_data # rest) data d =
     (if take 1 tmp_data = ''$'' then
        (case update now data d of
           (Some e, d') \<Rightarrow> (Some e, d')
         | (None, d') \<Rightarrow> read_lines now rest [tmp_data] d')
      else if length data \<noteq> 0 then read_lines now rest (data @ [tmp_data]) d
      else read_lines now rest data d)"

text \<open>
  \<^verbatim>\<open>new_location(ttw)\<close>: \<open>Inr\<close> of the boolean it returns, or \<open>Inl\<close> of the exception
  that leaves it, and the object afterwards.
\<close>

definition new_location :: "real \<Rightarrow> real \<Rightarrow> bytes list \<Rightarrow> Data \<Rightarrow> (error + bool) \<times> Data" where
  "new_location now ttw lines d =
     (if now - (last_update d + ttw) < 0 then (Inr False, d)
      else
        (case read_lines now lines [] (d\<lparr>d_data := Location_init\<rparr>) of
           (Some e, d') \<Rightarrow> (Inl e, d')
         | (None, d') \<Rightarrow> (Inr (valid (d_data d')), d')))"

definition get_location :: "Data \<Rightarrow> Location" where
  "get_location d = d_data d"

text \<open>
  \<^verbatim>\<open>Data.__init__\<close> at clock reading \<open>t0\<close>. The attribute \<^verbatim>\<open>__data\<close> exists only
  from the first cycle on, which assigns a fresh \<^verbatim>\<open>Location()\<close> before it reads a
  line; the record holds the fresh location from the start.
\<close>

definition Data_init :: "real \<Rightarrow> Data" where
  "Data_init t0 = \<lparr>d_data = Location_init, last_update = t0\<rparr>"

section \<open>Notions used in the statements\<close>

text \<open>
  The recency rule between the value of a field before a call and after it, in the
  words of the specification: the field is as it was, or it holds a measurement and
  was unset or held one with a strictly smaller time. \<open><\<close> on time tuples is the
  lexicographic order of \<open>Product_Lexorder\<close>.
\<close>

definition recency :: "Value option \<Rightarrow> Value option \<Rightarrow> bool" where
  "recency old new =
     (new \<noteq> old \<longrightarrow>
        (case new of
           None \<Rightarrow> False
         | Some m \<Rightarrow> (case old of None \<Rightarrow> True | Some v \<Rightarrow> time v < time m)))"

definition recency_all :: "Location \<Rightarrow> Location \<Rightarrow> bool" where
  "recency_all s s' =
     (recency (f_lat s) (f_lat s') \<and> recency (f_long s) (f_long s') \<and>
      recency (f_speed s) (f_speed s') \<and> recency (f_course s) (f_course s') \<and>
      recency (f_hdop s) (f_hdop s'))"

text \<open>The payload and the framed line of the GGA sentence of the specification's
  end-to-end property, and the location after the payload alone.\<close>

definition gga_segment :: string where
  "gga_segment = ''123519,4807.038,N,01131.000,E,1,08,0.9,545.4,M,46.9,M,,*47''"

definition gga_example :: bytes where
  "gga_example = ''$GPGGA,'' @ gga_segment @ [CR, LF]"

definition gga_location :: Location where
  "gga_location = snd (Location_set ''$GPGGA'' gga_segment Location_init)"

text \<open>An RMC payload of the same second, and the location after the GGA and this RMC
  payload, in which all five mergeable fields are set; an RMC payload with a later time,
  and a GGA payload with a later time that reports five satellites.\<close>

definition rmc_segment :: string where
  "rmc_segment = ''123519,A,4807.038,N,01131.000,E,022.4,084.4,230394,003.1,W*6A''"

definition full_location :: Location where
  "full_location = snd (Location_set ''$GPRMC'' rmc_segment gga_location)"

definition rmc_later :: string where
  "rmc_later = ''123520,A,4807.040,N,01131.002,E,022.5,084.5,230394,003.1,W*6A''"

definition gga_later :: string where
  "gga_later = ''123521,4807.041,N,01131.003,E,1,05,1.1,545.5,M,46.9,M,,*47''"

text \<open>A VTG payload that passes the guard of its branch: seven fields and \<open>T\<close> at
  index 2.\<close>

definition vtg_segment :: string where
  "vtg_segment = ''0,054.7,T,M,005.5,054.7,N''"

text \<open>A GSV payload of a group of one message that reports five satellites.\<close>

definition gsv_segment :: string where
  "gsv_segment = ''1,1,05''"

text \<open>A GGA payload with the altitude in feet that ends after field 10, so that
  field 11 is absent, and one with an empty field 9.\<close>

definition gga_short :: string where
  "gga_short = ''123519,4807.038,N,01131.000,E,1,08,0.9,1789.4,F,46.9''"

definition gga_no_unit :: string where
  "gga_no_unit = ''123519,4807.038,N,01131.000,E,1,08,0.9,545.4,,46.9''"

text \<open>The GGA payload with a letter in the longitude.\<close>

definition gga_bad_long :: string where
  "gga_bad_long = ''123519,4807.038,N,0113x.000,E,1,08,0.9,545.4,M,46.9,M,,*47''"

definition gga_bad_line :: bytes where
  "gga_bad_line = ''$GPGGA,'' @ gga_bad_long @ [CR, LF]"

text \<open>A GLL payload whose hemisphere field is empty, and one with a time field that
  is too short.\<close>

definition gll_no_hemisphere :: string where
  "gll_no_hemisphere = ''4916.45,,12311.12,W,225444,A''"

definition gll_bad_time :: string where
  "gll_bad_time = ''4916.45,N,12311.12,W,2254,A''"

text \<open>A GLL payload that its receiver marks as void.\<close>

definition gll_void :: string where
  "gll_void = ''4916.45,N,12311.12,W,225444,V''"

text \<open>A GLL line that ends in a carriage return alone, and one with no terminator.\<close>

definition gll_cr_line :: bytes where
  "gll_cr_line = ''$GPGLL,4916.45,N,12311.12,W,225444,A'' @ [CR]"

definition gll_open_line :: bytes where
  "gll_open_line = ''$GPGLL,4916.45,N,12311.12,W,225444,A''"

text \<open>
  The guard of the branch of \<^verbatim>\<open>set\<close> that an identifier selects, as the branches
  state it; an identifier with no branch, and \<^verbatim>\<open>$GPMSS\<close>, run no statement.
\<close>

definition guard :: "bytes \<Rightarrow> string list \<Rightarrow> bool" where
  "guard msgid data =
     (if msgid = ''$GPGGA'' then
        length data \<ge> 6 \<and> (data ! 5 = ''1'' \<or> data ! 5 = ''2'' \<or> data ! 5 = ''6'')
      else if msgid = ''$GPGLL'' then length data \<ge> 6 \<and> data ! 5 = ''A''
      else if msgid = ''$GPRMC'' then length data \<ge> 6 \<and> data ! 1 = ''A''
      else if msgid = ''$GPVTG'' then length data \<ge> 7 \<and> data ! 2 = ''T''
      else if msgid = ''$GPGSV'' then seg_set data 2 \<and> data ! 0 = data ! 1
      else False)"

text \<open>The index of the time field that a branch parses first, for the three branches
  that have one.\<close>

definition time_index :: "bytes \<Rightarrow> nat option" where
  "time_index msgid =
     (if msgid = ''$GPGGA'' then Some 0
      else if msgid = ''$GPGLL'' then Some 4
      else if msgid = ''$GPRMC'' then Some 0
      else None)"

text \<open>
  A string that is a decimal literal for \<^verbatim>\<open>float\<close> or for \<^verbatim>\<open>int\<close>, and a time
  field whose three slices \<^verbatim>\<open>ts[0:2]\<close>, \<^verbatim>\<open>ts[2:4]\<close> and \<^verbatim>\<open>ts[4:]\<close> are such
  literals for \<^verbatim>\<open>int\<close>, \<^verbatim>\<open>int\<close> and \<^verbatim>\<open>float\<close>. A field that a setter accepts:
  an empty field is skipped by the setter; of a latitude field the setter converts the
  slices \<^verbatim>\<open>v[0:2]\<close> and \<^verbatim>\<open>v[2:]\<close>, of a longitude field \<^verbatim>\<open>v[0:3]\<close> and
  \<^verbatim>\<open>v[3:]\<close>, and of any other numeric field the whole field.
\<close>

definition is_float :: "string \<Rightarrow> bool" where
  "is_float v = (case float_py v of Inl e \<Rightarrow> False | Inr x \<Rightarrow> True)"

definition is_int :: "string \<Rightarrow> bool" where
  "is_int v = (case int_py v of Inl e \<Rightarrow> False | Inr n \<Rightarrow> True)"

definition is_time :: "string \<Rightarrow> bool" where
  "is_time ts = (case time_from_seg ts of Inl e \<Rightarrow> False | Inr t \<Rightarrow> True)"

definition num_field_ok :: "string \<Rightarrow> bool" where
  "num_field_ok v = (v = [] \<or> is_float v)"

definition lat_field_ok :: "string \<Rightarrow> bool" where
  "lat_field_ok v = (v = [] \<or> (is_float (take 2 v) \<and> is_float (drop 2 v)))"

definition long_field_ok :: "string \<Rightarrow> bool" where
  "long_field_ok v = (v = [] \<or> (is_float (take 3 v) \<and> is_float (drop 3 v)))"

text \<open>
  Every string that the branch for an identifier converts is a decimal literal, for
  the four branches that can run to their end: the slices of the time field, the
  slices of the latitude and the longitude field, and the other numeric fields where
  the branch reads them; the RMC branch also needs the two fields it reads beyond its
  guard.
\<close>

definition fields_ok :: "bytes \<Rightarrow> string list \<Rightarrow> bool" where
  "fields_ok msgid data =
     (if msgid = ''$GPGGA'' then
        is_time (data ! 0) \<and> lat_field_ok (data ! 1) \<and> long_field_ok (data ! 3) \<and>
        (seg_set data 6 \<longrightarrow> is_int (data ! 6)) \<and>
        (seg_set data 7 \<longrightarrow> is_float (data ! 7)) \<and>
        (seg_set data 8 \<longrightarrow> is_float (data ! 8)) \<and>
        (seg_set data 10 \<longrightarrow> is_float (data ! 10))
      else if msgid = ''$GPGLL'' then
        is_time (data ! 4) \<and> lat_field_ok (data ! 0) \<and> long_field_ok (data ! 2)
      else if msgid = ''$GPRMC'' then
        length data \<ge> 8 \<and> is_time (data ! 0) \<and> lat_field_ok (data ! 2) \<and>
        long_field_ok (data ! 4) \<and> num_field_ok (data ! 6) \<and> num_field_ok (data ! 7)
      else if msgid = ''$GPGSV'' then is_int (data ! 2)
      else False)"

section \<open>Evaluation and basic facts\<close>

lemmas builtin_evals = float_py_def int_py_def strip_def is_space_def is_digit_def
  drop_underscores_def
  digit_val_def exponent_py_def scale10_def bytes_repr_def repr_byte_def hex_digit_def
  CR_def LF_def

lemmas value_evals = Value_init_def Distance_def Position_def Speed_def HDOP_def Course_def

lemmas location_evals = Location_init_def seg_set_def unset_or_older_def set_hdop_def
  set_speed_def set_course_def set_lat_def set_long_def time_from_seg_def
  GGA_satellites_def GGA_hdop_def GGA_alt_def GGA_height_def set_GGA_def set_GLL_def
  RMC_speed_def RMC_course_def set_RMC_def VTG_course_def set_VTG_def
  GSV_satellites_def set_GSV_def dispatch_def Location_set_def

lemmas accessor_evals = valid_def longitude_def latitude_def altitude_def height_def
  speed_def course_def satellites_def hdop_def

lemmas data_evals = last_byte_def payload_def update_def new_location_def get_location_def
  Data_init_def

lemmas example_evals = gga_segment_def gga_example_def rmc_segment_def rmc_later_def
  gga_later_def vtg_segment_def gsv_segment_def gga_short_def gga_bad_long_def
  gll_no_hemisphere_def gll_bad_time_def gll_cr_line_def gll_open_line_def
  gga_no_unit_def gll_void_def gga_bad_line_def

lemmas evals = builtin_evals value_evals location_evals accessor_evals data_evals
  example_evals gga_location_def Let_def

lemma gga_location_eq:
  "gga_location =
     \<lparr>f_valid = True,
      f_lat = Some \<lparr>val = 48.1173, unit = ''N'', time = (12, 35, 19)\<rparr>,
      f_long = Some \<lparr>val = 691 / 60, unit = ''E'', time = (12, 35, 19)\<rparr>,
      f_alt = Some \<lparr>val = 545.4, unit = ''M'', time = (12, 35, 19)\<rparr>,
      f_height = Some \<lparr>val = 46.9, unit = ''46.9'', time = (12, 35, 19)\<rparr>,
      f_speed = None, f_course = None, f_satellites = 8,
      f_hdop = Some \<lparr>val = 0.9, unit = [], time = (12, 35, 19)\<rparr>\<rparr>"
  by (simp add: evals)

text \<open>Python's comparison of two time tuples is the lexicographic order.\<close>

lemma tuple_lt_iff_less: "tuple_lt a b \<longleftrightarrow> a < b"
  by (cases a; cases b) (auto simp: less_prod_def less_eq_prod_def)

text \<open>What holds before a list of statements and is kept by each of them holds after
  the list, whether it ends normally or by an exception.\<close>

lemma run_preserves:
  assumes step: "\<And>f a b. f \<in> set fs \<Longrightarrow> P a \<Longrightarrow> f a = Inr b \<Longrightarrow> P b" and init: "P s"
  shows "P (snd (run fs s))"
  using assms
proof (induction fs arbitrary: s)
  case Nil
  then show ?case by simp
next
  case (Cons f fs)
  show ?case
  proof (cases "f s")
    case (Inl e)
    then show ?thesis using Cons.prems(2) by simp
  next
    case (Inr b)
    have "f \<in> set (f # fs)" by simp
    then have "P b" using Cons.prems(1) Cons.prems(2) Inr by blast
    moreover have "\<And>g a b. g \<in> set fs \<Longrightarrow> P a \<Longrightarrow> g a = Inr b \<Longrightarrow> P b"
      using Cons.prems(1) by (meson list.set_intros(2))
    ultimately have "P (snd (run fs b))" using Cons.IH by blast
    then show ?thesis using Inr by simp
  qed
qed

section \<open>The recency rule of the setters\<close>

lemma recency_refl: "recency x x"
  by (simp add: recency_def)

lemma recency_trans: "recency x y \<Longrightarrow> recency y z \<Longrightarrow> recency x z"
  by (auto simp: recency_def split: option.splits)

lemma recency_all_refl: "recency_all s s"
  by (simp add: recency_all_def recency_refl)

lemma recency_all_trans: "recency_all a b \<Longrightarrow> recency_all b c \<Longrightarrow> recency_all a c"
  unfolding recency_all_def by (blast intro: recency_trans)

lemma recency_store: "unset_or_older old t \<Longrightarrow> time m = t \<Longrightarrow> recency old (Some m)"
  by (auto simp: recency_def unset_or_older_def tuple_lt_iff_less split: option.splits)

lemma set_lat_recency: "set_lat v d t s = Inr s' \<Longrightarrow> recency_all s s'"
  by (auto simp: set_lat_def recency_all_def recency_refl Position_def Value_init_def
        intro!: recency_store split: if_splits sum.splits)

lemma set_long_recency: "set_long v d t s = Inr s' \<Longrightarrow> recency_all s s'"
  by (auto simp: set_long_def recency_all_def recency_refl Position_def Value_init_def
        intro!: recency_store split: if_splits sum.splits)

lemma set_speed_recency: "set_speed v u t s = Inr s' \<Longrightarrow> recency_all s s'"
  by (auto simp: set_speed_def recency_all_def recency_refl Speed_def Value_init_def
        intro!: recency_store split: if_splits sum.splits)

lemma set_course_recency: "set_course v t s = Inr s' \<Longrightarrow> recency_all s s'"
  by (auto simp: set_course_def recency_all_def recency_refl Course_def Value_init_def
        intro!: recency_store split: if_splits sum.splits)

lemma set_hdop_recency: "set_hdop v t s = Inr s' \<Longrightarrow> recency_all s s'"
  by (auto simp: set_hdop_def recency_all_def recency_refl HDOP_def Value_init_def
        intro!: recency_store split: if_splits sum.splits)

lemma GGA_satellites_recency: "GGA_satellites data s = Inr s' \<Longrightarrow> recency_all s s'"
  by (auto simp: GGA_satellites_def recency_all_def recency_refl split: if_splits sum.splits)

lemma GGA_hdop_recency: "GGA_hdop data t s = Inr s' \<Longrightarrow> recency_all s s'"
  by (auto simp: GGA_hdop_def recency_all_refl split: if_splits dest: set_hdop_recency)

lemma GGA_alt_recency: "GGA_alt data t s = Inr s' \<Longrightarrow> recency_all s s'"
  by (auto simp: GGA_alt_def recency_all_def recency_refl split: if_splits sum.splits)

lemma GGA_height_recency: "GGA_height data t s = Inr s' \<Longrightarrow> recency_all s s'"
  by (auto simp: GGA_height_def recency_all_def recency_refl split: if_splits sum.splits)

lemma RMC_speed_recency: "RMC_speed data t s = Inr s' \<Longrightarrow> recency_all s s'"
  by (auto simp: RMC_speed_def split: if_splits dest: set_speed_recency)

lemma RMC_course_recency: "RMC_course data t s = Inr s' \<Longrightarrow> recency_all s s'"
  by (auto simp: RMC_course_def split: if_splits dest: set_course_recency)

lemma VTG_course_recency: "VTG_course data s = Inr s' \<Longrightarrow> recency_all s s'"
  by (simp add: VTG_course_def)

lemma GSV_satellites_recency: "GSV_satellites data s = Inr s' \<Longrightarrow> recency_all s s'"
  by (auto simp: GSV_satellites_def recency_all_def recency_refl split: sum.splits)

lemmas step_recency = set_lat_recency set_long_recency set_speed_recency set_course_recency
  set_hdop_recency GGA_satellites_recency GGA_hdop_recency GGA_alt_recency GGA_height_recency
  RMC_speed_recency RMC_course_recency VTG_course_recency GSV_satellites_recency

lemma run_recency:
  assumes "\<And>f a b. f \<in> set fs \<Longrightarrow> f a = Inr b \<Longrightarrow> recency_all a b"
  shows "recency_all s (snd (run fs s))"
proof (rule run_preserves [where P = "recency_all s"])
  show "recency_all s s" by (rule recency_all_refl)
next
  fix f a b
  assume "f \<in> set fs" "recency_all s a" "f a = Inr b"
  then show "recency_all s b" using assms recency_all_trans by blast
qed

lemma set_GGA_recency: "recency_all s (snd (set_GGA data s))"
proof (cases "time_from_seg (data ! 0)")
  case (Inl e)
  then show ?thesis by (simp add: set_GGA_def recency_all_refl)
next
  case (Inr t)
  have "recency_all s (snd (run [set_lat (data ! 1) (data ! 2) t,
          set_long (data ! 3) (data ! 4) t, GGA_satellites data, GGA_hdop data t,
          GGA_alt data t, GGA_height data t] s))"
    by (rule run_recency) (auto dest: step_recency)
  then show ?thesis using Inr by (simp add: set_GGA_def recency_all_refl)
qed

lemma set_GLL_recency: "recency_all s (snd (set_GLL data s))"
proof (cases "time_from_seg (data ! 4)")
  case (Inl e)
  then show ?thesis by (simp add: set_GLL_def recency_all_refl)
next
  case (Inr t)
  have "recency_all s (snd (run [set_lat (data ! 0) (data ! 1) t,
          set_long (data ! 2) (data ! 3) t] s))"
    by (rule run_recency) (auto dest: step_recency)
  then show ?thesis using Inr by (simp add: set_GLL_def recency_all_refl)
qed

lemma set_RMC_recency: "recency_all s (snd (set_RMC data s))"
proof (cases "time_from_seg (data ! 0)")
  case (Inl e)
  then show ?thesis by (simp add: set_RMC_def recency_all_refl)
next
  case (Inr t)
  have "recency_all s (snd (run [set_lat (data ! 2) (data ! 3) t,
          set_long (data ! 4) (data ! 5) t, RMC_speed data t, RMC_course data t] s))"
    by (rule run_recency) (auto dest: step_recency)
  then show ?thesis using Inr by (simp add: set_RMC_def recency_all_refl)
qed

lemma set_VTG_recency: "recency_all s (snd (set_VTG data s))"
proof -
  have "recency_all s (snd (run [set_speed (data ! 4) (data ! 6) (0, 0, 0),
          VTG_course data] s))"
    by (rule run_recency) (auto dest: step_recency)
  then show ?thesis by (simp add: set_VTG_def recency_all_refl)
qed

lemma set_GSV_recency: "recency_all s (snd (set_GSV data s))"
proof -
  have "recency_all s (snd (run [GSV_satellites data] s))"
    by (rule run_recency) (auto dest: step_recency)
  then show ?thesis by (simp add: set_GSV_def recency_all_refl)
qed

lemma recency_all_valid: "recency_all s s' \<Longrightarrow> recency_all s (s'\<lparr>f_valid := b\<rparr>)"
  by (simp add: recency_all_def)

lemma dispatch_recency: "recency_all s (snd (dispatch msgid data s))"
  by (simp add: dispatch_def set_GGA_recency set_GLL_recency set_RMC_recency
        set_VTG_recency set_GSV_recency recency_all_refl)

lemma Location_set_recency: "recency_all s (snd (Location_set msgid segment s))"
proof -
  obtain r s' where eq: "dispatch msgid (split_comma segment) s = (r, s')"
    by (cases "dispatch msgid (split_comma segment) s")
  with dispatch_recency [of s msgid "split_comma segment"] have "recency_all s s'"
    by simp
  then show ?thesis
    unfolding Location_set_def Let_def eq
    by (cases r) (simp_all add: recency_all_valid)
qed

lemma setter_keeps:
  "f_lat s = Some old \<Longrightarrow> t \<le> time old \<Longrightarrow> set_lat v d t s = Inr s"
  "f_long s = Some old \<Longrightarrow> t \<le> time old \<Longrightarrow> set_long v d t s = Inr s"
  "f_speed s = Some old \<Longrightarrow> t \<le> time old \<Longrightarrow> set_speed v u t s = Inr s"
  "f_course s = Some old \<Longrightarrow> t \<le> time old \<Longrightarrow> set_course v t s = Inr s"
  "f_hdop s = Some old \<Longrightarrow> t \<le> time old \<Longrightarrow> set_hdop v t s = Inr s"
  by (simp_all add: set_lat_def set_long_def set_speed_def set_course_def set_hdop_def
        unset_or_older_def tuple_lt_iff_less not_less [symmetric])

text \<open>
  Claim C7. Whatever the identifier and the payload, and whether \<^verbatim>\<open>set\<close> returns or
  raises, each of latitude, longitude, speed, course and HDOP is afterwards either as it
  was, or holds a measurement where before it was unset or held one whose time tuple is
  strictly smaller in the lexicographic order on (hour, minute, second). And a setter
  called with a time tuple that is earlier than or equal to the stored one leaves the
  location as it is.
\<close>

theorem recency_merge:
  "recency (f_lat s) (f_lat (snd (Location_set msgid segment s))) \<and>
   recency (f_long s) (f_long (snd (Location_set msgid segment s))) \<and>
   recency (f_speed s) (f_speed (snd (Location_set msgid segment s))) \<and>
   recency (f_course s) (f_course (snd (Location_set msgid segment s))) \<and>
   recency (f_hdop s) (f_hdop (snd (Location_set msgid segment s))) \<and>
   (f_lat s = Some old \<and> t \<le> time old \<longrightarrow> set_lat v d t s = Inr s) \<and>
   (f_long s = Some old \<and> t \<le> time old \<longrightarrow> set_long v d t s = Inr s) \<and>
   (f_speed s = Some old \<and> t \<le> time old \<longrightarrow> set_speed v u t s = Inr s) \<and>
   (f_course s = Some old \<and> t \<le> time old \<longrightarrow> set_course v t s = Inr s) \<and>
   (f_hdop s = Some old \<and> t \<le> time old \<longrightarrow> set_hdop v t s = Inr s)"
  using Location_set_recency [of s msgid segment] setter_keeps [of s old t]
  by (simp add: recency_all_def)

lemma full_location_eq:
  "full_location =
     \<lparr>f_valid = True,
      f_lat = Some \<lparr>val = 48.1173, unit = ''N'', time = (12, 35, 19)\<rparr>,
      f_long = Some \<lparr>val = 691 / 60, unit = ''E'', time = (12, 35, 19)\<rparr>,
      f_alt = Some \<lparr>val = 545.4, unit = ''M'', time = (12, 35, 19)\<rparr>,
      f_height = Some \<lparr>val = 46.9, unit = ''46.9'', time = (12, 35, 19)\<rparr>,
      f_speed = Some \<lparr>val = 22.4, unit = ''N'', time = (12, 35, 19)\<rparr>,
      f_course = Some \<lparr>val = 84.4, unit = ''D'', time = (12, 35, 19)\<rparr>,
      f_satellites = 8,
      f_hdop = Some \<lparr>val = 0.9, unit = [], time = (12, 35, 19)\<rparr>\<rparr>"
  unfolding full_location_def gga_location_eq
  by (simp add: builtin_evals value_evals location_evals example_evals Let_def)

lemma rmc_later_eq:
  "snd (Location_set ''$GPRMC'' rmc_later full_location) =
     full_location
       \<lparr>f_lat := Some \<lparr>val = 48 + 7.040 / 60, unit = ''N'', time = (12, 35, 20)\<rparr>,
        f_long := Some \<lparr>val = 11 + 31.002 / 60, unit = ''E'', time = (12, 35, 20)\<rparr>,
        f_speed := Some \<lparr>val = 22.5, unit = ''N'', time = (12, 35, 20)\<rparr>,
        f_course := Some \<lparr>val = 84.5, unit = ''D'', time = (12, 35, 20)\<rparr>\<rparr>"
  unfolding full_location_eq
  by (simp add: builtin_evals value_evals location_evals example_evals Let_def
        less_prod_def less_eq_prod_def)

lemma gga_later_hdop:
  "f_hdop (snd (Location_set ''$GPGGA'' gga_later full_location)) =
     Some \<lparr>val = 1.1, unit = [], time = (12, 35, 21)\<rparr>"
  unfolding full_location_eq
  by (simp add: builtin_evals value_evals location_evals example_evals Let_def
        less_prod_def less_eq_prod_def)

theorem recency_merge_witness:
  "f_lat (snd (Location_set ''$GPRMC'' rmc_later full_location)) \<noteq> f_lat full_location \<and>
   recency (f_lat full_location) (f_lat (snd (Location_set ''$GPRMC'' rmc_later full_location))) \<and>
   f_long (snd (Location_set ''$GPRMC'' rmc_later full_location)) \<noteq> f_long full_location \<and>
   recency (f_long full_location) (f_long (snd (Location_set ''$GPRMC'' rmc_later full_location))) \<and>
   f_speed (snd (Location_set ''$GPRMC'' rmc_later full_location)) \<noteq> f_speed full_location \<and>
   recency (f_speed full_location) (f_speed (snd (Location_set ''$GPRMC'' rmc_later full_location))) \<and>
   f_course (snd (Location_set ''$GPRMC'' rmc_later full_location)) \<noteq> f_course full_location \<and>
   recency (f_course full_location) (f_course (snd (Location_set ''$GPRMC'' rmc_later full_location))) \<and>
   f_hdop (snd (Location_set ''$GPGGA'' gga_later full_location)) \<noteq> f_hdop full_location \<and>
   recency (f_hdop full_location) (f_hdop (snd (Location_set ''$GPGGA'' gga_later full_location))) \<and>
   set_lat ''4807.999'' ''N'' (12, 35, 19) full_location = Inr full_location \<and>
   set_long ''01131.999'' ''E'' (12, 35, 19) full_location = Inr full_location \<and>
   set_speed ''99.9'' ''N'' (12, 35, 19) full_location = Inr full_location \<and>
   set_course ''99.9'' (12, 35, 19) full_location = Inr full_location \<and>
   set_hdop ''9.9'' (12, 35, 19) full_location = Inr full_location"
proof -
  have changed:
    "f_lat (snd (Location_set ''$GPRMC'' rmc_later full_location)) \<noteq> f_lat full_location"
    "f_long (snd (Location_set ''$GPRMC'' rmc_later full_location)) \<noteq> f_long full_location"
    "f_speed (snd (Location_set ''$GPRMC'' rmc_later full_location)) \<noteq> f_speed full_location"
    "f_course (snd (Location_set ''$GPRMC'' rmc_later full_location)) \<noteq> f_course full_location"
    "f_hdop (snd (Location_set ''$GPGGA'' gga_later full_location)) \<noteq> f_hdop full_location"
    unfolding rmc_later_eq gga_later_hdop by (simp_all add: full_location_eq)
  have stored:
    "f_lat full_location = Some \<lparr>val = 48.1173, unit = ''N'', time = (12, 35, 19)\<rparr>"
    "f_long full_location = Some \<lparr>val = 691 / 60, unit = ''E'', time = (12, 35, 19)\<rparr>"
    "f_speed full_location = Some \<lparr>val = 22.4, unit = ''N'', time = (12, 35, 19)\<rparr>"
    "f_course full_location = Some \<lparr>val = 84.4, unit = ''D'', time = (12, 35, 19)\<rparr>"
    "f_hdop full_location = Some \<lparr>val = 0.9, unit = [], time = (12, 35, 19)\<rparr>"
    by (simp_all add: full_location_eq)
  show ?thesis
    using changed stored
      recency_merge [where s = full_location and msgid = "''$GPRMC''" and segment = rmc_later
        and old = "\<lparr>val = 48.1173, unit = ''N'', time = (12, 35, 19)\<rparr>"
        and t = "(12, 35, 19)" and v = "''4807.999''" and d = "''N''"]
      recency_merge [where s = full_location and msgid = "''$GPRMC''" and segment = rmc_later
        and old = "\<lparr>val = 691 / 60, unit = ''E'', time = (12, 35, 19)\<rparr>"
        and t = "(12, 35, 19)" and v = "''01131.999''" and d = "''E''"]
      recency_merge [where s = full_location and msgid = "''$GPRMC''" and segment = rmc_later
        and old = "\<lparr>val = 22.4, unit = ''N'', time = (12, 35, 19)\<rparr>"
        and t = "(12, 35, 19)" and v = "''99.9''" and u = "''N''"]
      recency_merge [where s = full_location and msgid = "''$GPRMC''" and segment = rmc_later
        and old = "\<lparr>val = 84.4, unit = ''D'', time = (12, 35, 19)\<rparr>"
        and t = "(12, 35, 19)" and v = "''99.9''"]
      recency_merge [where s = full_location and msgid = "''$GPGGA''" and segment = gga_later
        and old = "\<lparr>val = 0.9, unit = [], time = (12, 35, 19)\<rparr>"
        and t = "(12, 35, 19)" and v = "''9.9''"]
    by simp
qed

section \<open>The end-to-end GGA example and the accessors\<close>

lemma gga_cycle:
  "new_location 10 5 [gga_example] (Data_init 0) =
     (Inr True, \<lparr>d_data = gga_location, last_update = 10\<rparr>)"
  unfolding gga_location_eq by (simp add: evals)

text \<open>For every location, \<^verbatim>\<open>latitude()\<close> is the value of the stored longitude and
  \<^verbatim>\<open>longitude()\<close> the value of the stored latitude.\<close>

lemma accessors_swapped:
  "latitude s = map_option val (f_long s)" "longitude s = map_option val (f_lat s)"
  by (simp_all add: latitude_def longitude_def split: option.splits)

text \<open>
  Claim C1. The framed GGA sentence of the specification, read in a fresh cycle, gives a
  valid location with eight satellites and altitude 545.4 whose stored latitude is
  48.1173 and whose stored longitude is 11 + 31/60. The accessors do not each return
  their own field: \<^verbatim>\<open>latitude()\<close> returns the stored longitude, 11 + 31/60, and
  \<^verbatim>\<open>longitude()\<close> returns the stored latitude, 48.1173.
\<close>

theorem gga_example_accessors:
  "new_location 10 5 [gga_example] (Data_init 0) =
     (Inr True, \<lparr>d_data = gga_location, last_update = 10\<rparr>) \<and>
   get_location \<lparr>d_data = gga_location, last_update = 10\<rparr> = gga_location \<and>
   valid gga_location \<and>
   satellites gga_location = Some 8 \<and>
   altitude gga_location = Some 545.4 \<and>
   f_lat gga_location = Some \<lparr>val = 48.1173, unit = ''N'', time = (12, 35, 19)\<rparr> \<and>
   f_long gga_location = Some \<lparr>val = 11 + 31 / 60, unit = ''E'', time = (12, 35, 19)\<rparr> \<and>
   latitude gga_location = Some (11 + 31 / 60) \<and>
   longitude gga_location = Some 48.1173"
  using gga_cycle by (simp add: gga_location_eq accessor_evals get_location_def)

section \<open>The VTG branch\<close>

text \<open>Every VTG sentence that passes the guard of its branch ends in an exception, and
  the course is as it was.\<close>

lemma set_VTG_raises:
  assumes "guard ''$GPVTG'' data"
  shows "fst (set_VTG data s) \<noteq> None \<and> f_course (snd (set_VTG data s)) = f_course s"
proof (cases "set_speed (data ! 4) (data ! 6) (0, 0, 0) s")
  case (Inl e)
  then show ?thesis using assms by (simp add: set_VTG_def guard_def)
next
  case (Inr s')
  then have "f_course s' = f_course s"
    by (auto simp: set_speed_def split: if_splits sum.splits)
  then show ?thesis using assms Inr by (simp add: set_VTG_def guard_def VTG_course_def)
qed

text \<open>
  Claim C2. A VTG payload with seven fields and \<open>T\<close> at index 2 updates the speed from
  field 4 with the unit of field 6 and the zero time tuple, and then the call that
  should update the course raises TypeError: \<^verbatim>\<open>set\<close> does not return and the course
  stays unset.
\<close>

theorem vtg_course_raises:
  "guard ''$GPVTG'' (split_comma vtg_segment) \<and>
   Location_set ''$GPVTG'' vtg_segment Location_init =
     (Inl TypeError,
      Location_init\<lparr>f_speed := Some \<lparr>val = 5.5, unit = ''N'', time = (0, 0, 0)\<rparr>\<rparr>) \<and>
   f_course (snd (Location_set ''$GPVTG'' vtg_segment Location_init)) = None"
  by (simp add: evals guard_def)

section \<open>Unterminated buffers\<close>

text \<open>A buffer whose last byte is neither a carriage return nor a line feed is dropped:
  nothing is raised and nothing changes.\<close>

lemma update_drops_unterminated:
  "last_byte (concat data) \<noteq> [LF] \<Longrightarrow> last_byte (concat data) \<noteq> [CR] \<Longrightarrow>
   update now data d = (None, d)"
  by (simp add: update_def Let_def)

text \<open>Every buffer whose last byte is a carriage return raises TypeError, and the
  location is not touched.\<close>

lemma update_cr_raises:
  "last_byte (concat data) = [CR] \<Longrightarrow> update now data d = (Some TypeError, d)"
  by (auto simp: update_def Let_def last_byte_def CR_def LF_def)

lemma cycle_continues_after_drop:
  "new_location 10 5 [gll_open_line, gga_example] (Data_init 0) =
     (Inr True, \<lparr>d_data = gga_location, last_update = 10\<rparr>)"
  unfolding gga_location_eq by (simp add: evals)

text \<open>
  Claim C6. A buffer that ends in a carriage return alone is not completed with a line
  feed and parsed: the statement that should append the line feed raises TypeError, which
  ends the whole cycle, so that the GGA line after it is never parsed.
\<close>

theorem cr_line_raises:
  "update 10 [gll_cr_line] (Data_init 0) = (Some TypeError, Data_init 0) \<and>
   new_location 10 5 [gll_cr_line, gga_example] (Data_init 0) = (Inl TypeError, Data_init 0)"
  by (simp add: evals)

section \<open>The HDOP labels\<close>

text \<open>
  Claim C8, as stated, fails on the label: below 1 the label is \<^verbatim>\<open>Ide.\<close>, not
  \<^verbatim>\<open>Ideal\<close>.
\<close>

theorem hdop_label_counterexample:
  "HDOP_str (HDOP 0.99 (0, 0, 0)) = ''Ide.'' \<and> HDOP_str (HDOP 0.99 (0, 0, 0)) \<noteq> ''Ideal''"
  by (simp add: HDOP_str_def HDOP_def Value_init_def)

text \<open>
  Claim C8, amended. The label of an HDOP value is \<^verbatim>\<open>Ide.\<close> below 1, \<^verbatim>\<open>Exe.\<close> from
  1 to 2, \<^verbatim>\<open>Good\<close> above 2 up to 5, \<^verbatim>\<open>Mod.\<close> above 5 up to 10, \<^verbatim>\<open>Fair\<close> above
  10 up to 20 and \<^verbatim>\<open>Poor\<close> above 20, every upper bound included.
\<close>

theorem hdop_labels:
  "(val h < 1 \<longrightarrow> HDOP_str h = ''Ide.'') \<and>
   (1 \<le> val h \<and> val h \<le> 2 \<longrightarrow> HDOP_str h = ''Exe.'') \<and>
   (2 < val h \<and> val h \<le> 5 \<longrightarrow> HDOP_str h = ''Good'') \<and>
   (5 < val h \<and> val h \<le> 10 \<longrightarrow> HDOP_str h = ''Mod.'') \<and>
   (10 < val h \<and> val h \<le> 20 \<longrightarrow> HDOP_str h = ''Fair'') \<and>
   (20 < val h \<longrightarrow> HDOP_str h = ''Poor'')"
  by (simp add: HDOP_str_def)

theorem hdop_labels_witness:
  "HDOP_str (HDOP 0.99 (0, 0, 0)) = ''Ide.'' \<and>
   HDOP_str (HDOP 1.0 (0, 0, 0)) = ''Exe.'' \<and>
   HDOP_str (HDOP 2.0 (0, 0, 0)) = ''Exe.'' \<and>
   HDOP_str (HDOP 2.01 (0, 0, 0)) = ''Good'' \<and>
   HDOP_str (HDOP 5.0 (0, 0, 0)) = ''Good'' \<and>
   HDOP_str (HDOP 10.0 (0, 0, 0)) = ''Mod.'' \<and>
   HDOP_str (HDOP 20.0 (0, 0, 0)) = ''Fair'' \<and>
   HDOP_str (HDOP 20.01 (0, 0, 0)) = ''Poor''"
  using hdop_labels [of "HDOP 0.99 (0, 0, 0)"] hdop_labels [of "HDOP 1.0 (0, 0, 0)"]
    hdop_labels [of "HDOP 2.0 (0, 0, 0)"] hdop_labels [of "HDOP 2.01 (0, 0, 0)"]
    hdop_labels [of "HDOP 5.0 (0, 0, 0)"] hdop_labels [of "HDOP 10.0 (0, 0, 0)"]
    hdop_labels [of "HDOP 20.0 (0, 0, 0)"] hdop_labels [of "HDOP 20.01 (0, 0, 0)"]
  by (simp add: HDOP_def Value_init_def)

section \<open>Speed conversion\<close>

text \<open>The error of a rounding to binary64 is at most half the spacing of the binary64
  numbers at the magnitude of the rounded number.\<close>

lemma bit_length_le: "n < 2 ^ k \<Longrightarrow> bit_length n \<le> k"
proof (induction n arbitrary: k rule: bit_length.induct)
  case (1 n)
  show ?case
  proof (cases "n = 0")
    case True
    then show ?thesis by (simp add: bit_length.simps)
  next
    case False
    then obtain j where k: "k = Suc j" using 1(2) by (cases k) auto
    have "n div 2 < 2 ^ j" using 1(2) k by auto
    then have "bit_length (n div 2) \<le> j" using 1(1) False by blast
    then show ?thesis using False k by (simp add: bit_length.simps [of n])
  qed
qed

lemma pow2_powr: "pow2 k = 2 powr (real_of_int k)"
  by (auto simp: pow2_def powr_realpow [symmetric] powr_minus field_simps
      simp flip: powr_add)

lemma pow2_mono: "a \<le> b \<Longrightarrow> pow2 a \<le> pow2 b"
  by (simp add: pow2_powr)

lemma pow2_pos: "0 < pow2 k"
  by (simp add: pow2_powr)

lemma round_half_even_error: "\<bar>real_of_int (round_half_even y) - y\<bar> \<le> 1 / 2"
  unfolding round_half_even_def by (auto simp: abs_le_iff)

lemma round64_quantum: "\<bar>round64 x - x\<bar> \<le> quantum x / 2"
proof (cases "x = 0")
  case True
  then show ?thesis using pow2_pos [of "max (exponent64 0) (- 1022) - 52"]
    by (simp add: round64_def quantum_def)
next
  case False
  have q: "0 < quantum x" by (simp add: quantum_def pow2_pos)
  have "round64 x - x =
      quantum x * (real_of_int (round_half_even (x / quantum x)) - x / quantum x)"
    using q False by (simp add: round64_def right_diff_distrib)
  then have "\<bar>round64 x - x\<bar> =
      quantum x * \<bar>real_of_int (round_half_even (x / quantum x)) - x / quantum x\<bar>"
    using q by (simp add: abs_mult)
  also have "\<dots> \<le> quantum x * (1 / 2)"
    using q round_half_even_error [of "x / quantum x"] by (intro mult_left_mono) auto
  finally show ?thesis by simp
qed

lemma exponent64_le:
  assumes "\<bar>x\<bar> < 2 ^ Suc k"
  shows "exponent64 x \<le> int k"
proof (cases "1 \<le> \<bar>x\<bar>")
  case True
  have "\<lfloor>\<bar>x\<bar>\<rfloor> < 2 ^ Suc k"
    using assms by (simp add: floor_less_iff)
  then have "nat \<lfloor>\<bar>x\<bar>\<rfloor> < 2 ^ Suc k"
    by (simp add: nat_less_iff)
  then have "bit_length (nat \<lfloor>\<bar>x\<bar>\<rfloor>) \<le> Suc k" by (rule bit_length_le)
  then show ?thesis using True by (simp add: exponent64_def)
next
  case False
  then show ?thesis by (simp add: exponent64_def)
qed

lemma round64_bound:
  assumes "\<bar>x\<bar> < 2 ^ Suc k"
  shows "\<bar>round64 x - x\<bar> \<le> 2 ^ k / 2 ^ 53"
proof -
  have "max (exponent64 x) (- 1022) - 52 \<le> int k - 52"
    using exponent64_le [OF assms] by simp
  then have "quantum x \<le> pow2 (int k - 52)"
    unfolding quantum_def by (rule pow2_mono)
  also have "pow2 (int k - 52) = 2 ^ k / 2 ^ 52"
    by (simp add: pow2_powr powr_diff powr_realpow)
  finally have "quantum x / 2 \<le> 2 ^ k / 2 ^ 53" by simp
  with round64_quantum [of x] show ?thesis by linarith
qed

lemmas round64_evals =
  round64_def quantum_def exponent64_def pow2_def bit_length.simps round_half_even_def

lemma knot_factor_eq: "knot_factor = 8340666509890159 / 2 ^ 52"
  by (simp add: knot_factor_def round64_evals)

lemma knot_factor_near: "\<bar>knot_factor - 1.852\<bar> \<le> 1 / 2 ^ 53"
  by (simp add: knot_factor_eq)

lemma knot_factor_bounds: "1.85 \<le> knot_factor" "knot_factor \<le> 1.86" "0 < knot_factor"
  by (simp_all add: knot_factor_eq)

lemma abs_near:
  fixes w v :: real
  assumes "\<bar>w - v\<bar> \<le> d" and "d \<le> 1" and "\<bar>v\<bar> \<le> 10 ^ 9"
  shows "\<bar>w\<bar> < 2 ^ Suc 30"
proof -
  have "\<bar>w\<bar> \<le> \<bar>w - v\<bar> + \<bar>v\<bar>" by simp
  also have "\<dots> \<le> 1 + 10 ^ 9" using assms by simp
  also have "\<dots> < 2 ^ Suc 30" by simp
  finally show ?thesis .
qed

lemma abs_sum2:
  fixes z w v :: real
  assumes "\<bar>z - w\<bar> \<le> a" and "\<bar>w - v\<bar> \<le> b" and "a + b \<le> c"
  shows "\<bar>z - v\<bar> \<le> c"
proof -
  have "\<bar>z - v\<bar> \<le> \<bar>z - w\<bar> + \<bar>w - v\<bar>" by simp
  then show ?thesis using assms by linarith
qed

text \<open>One conversion of a speed of at most \<open>10\<^sup>9\<close> is within 1e-6 of the exact
  product or quotient by 1.852, and so is the round trip of the original value.\<close>

lemma to_knot_near:
  assumes "\<bar>v\<bar> \<le> 10 ^ 9"
  shows "\<bar>round64 (v / knot_factor) - v / 1.852\<bar> \<le> 1 / 10 ^ 6"
proof -
  define c :: real where "c = 1.852"
  note f = knot_factor_bounds
  have c: "1 \<le> c" "0 < c" and near: "\<bar>knot_factor - c\<bar> \<le> 1 / 2 ^ 53"
    using knot_factor_near by (simp_all add: c_def)
  have "\<bar>v / knot_factor\<bar> = \<bar>v\<bar> / knot_factor"
    using f by simp
  also have "\<dots> \<le> \<bar>v\<bar> / 1.85"
    using f by (intro divide_left_mono) auto
  also have "\<dots> < 2 ^ Suc 29" using assms by simp
  finally have e1: "\<bar>round64 (v / knot_factor) - v / knot_factor\<bar> \<le> 2 ^ 29 / 2 ^ 53"
    by (rule round64_bound)
  have "v / knot_factor - v / c = v * ((c - knot_factor) / (knot_factor * c))"
    using f c by (simp add: field_simps)
  then have "\<bar>v / knot_factor - v / c\<bar> = \<bar>v\<bar> * (\<bar>knot_factor - c\<bar> / (knot_factor * c))"
    using f c by (simp add: abs_mult abs_minus_commute)
  also have "\<dots> \<le> 10 ^ 9 * ((1 / 2 ^ 53) / 1)"
  proof (intro mult_mono frac_le)
    show "1 \<le> knot_factor * c"
      using f c mult_mono [of 1 knot_factor 1 c] by simp
  qed (use assms f c near in auto)
  finally have e2: "\<bar>v / knot_factor - v / c\<bar> \<le> 10 ^ 9 * ((1 / 2 ^ 53) / 1)" .
  have "\<bar>round64 (v / knot_factor) - v / c\<bar> \<le> 1 / 10 ^ 6"
    by (rule abs_sum2 [OF e1 e2]) simp
  then show ?thesis by (simp add: c_def)
qed

lemma to_kmh_near:
  assumes "\<bar>v\<bar> \<le> 10 ^ 9"
  shows "\<bar>round64 (v * knot_factor) - v * 1.852\<bar> \<le> 1 / 10 ^ 6"
proof -
  note f = knot_factor_bounds
  have "\<bar>v * knot_factor\<bar> = \<bar>v\<bar> * knot_factor"
    using f by (simp add: abs_mult)
  also have "\<dots> \<le> \<bar>v\<bar> * 1.86"
    using f by (intro mult_left_mono) auto
  also have "\<dots> < 2 ^ Suc 30" using assms by simp
  finally have e1: "\<bar>round64 (v * knot_factor) - v * knot_factor\<bar> \<le> 2 ^ 30 / 2 ^ 53"
    by (rule round64_bound)
  have "v * knot_factor - v * 1.852 = v * (knot_factor - 1.852)"
    by (simp add: field_simps)
  then have "\<bar>v * knot_factor - v * 1.852\<bar> = \<bar>v\<bar> * \<bar>knot_factor - 1.852\<bar>"
    by (simp add: abs_mult)
  also have "\<dots> \<le> 10 ^ 9 * (1 / 2 ^ 53)"
    using assms knot_factor_near by (intro mult_mono) auto
  finally have e2: "\<bar>v * knot_factor - v * 1.852\<bar> \<le> 10 ^ 9 * (1 / 2 ^ 53)" .
  show ?thesis
    by (rule abs_sum2 [OF e1 e2]) simp
qed

lemma kmh_roundtrip:
  assumes "\<bar>v\<bar> \<le> 10 ^ 9"
  shows "\<bar>round64 (round64 (v / knot_factor) * knot_factor) - v\<bar> \<le> 1 / 10 ^ 6"
proof -
  define y where "y = round64 (v / knot_factor)"
  define w where "w = y * knot_factor"
  note f = knot_factor_bounds
  have "\<bar>v / knot_factor\<bar> = \<bar>v\<bar> / knot_factor"
    using f by simp
  also have "\<dots> \<le> \<bar>v\<bar> / 1.85"
    using f by (intro divide_left_mono) auto
  also have "\<dots> < 2 ^ Suc 29" using assms by simp
  finally have e1: "\<bar>y - v / knot_factor\<bar> \<le> 2 ^ 29 / 2 ^ 53"
    unfolding y_def by (rule round64_bound)
  have "w - v = (y - v / knot_factor) * knot_factor"
    using f by (simp add: w_def field_simps)
  then have "\<bar>w - v\<bar> = \<bar>y - v / knot_factor\<bar> * knot_factor"
    using f by (simp add: abs_mult)
  also have "\<dots> \<le> (2 ^ 29 / 2 ^ 53) * 1.86"
    using e1 f by (intro mult_mono) auto
  finally have e2: "\<bar>w - v\<bar> \<le> (2 ^ 29 / 2 ^ 53) * 1.86" .
  have "\<bar>w\<bar> < 2 ^ Suc 30"
    by (rule abs_near [OF e2 _ assms]) simp
  then have e3: "\<bar>round64 w - w\<bar> \<le> 2 ^ 30 / 2 ^ 53"
    by (rule round64_bound)
  have "\<bar>round64 w - v\<bar> \<le> 1 / 10 ^ 6"
    by (rule abs_sum2 [OF e3 e2]) simp
  then show ?thesis by (simp add: w_def y_def)
qed

lemma knot_roundtrip:
  assumes "\<bar>v\<bar> \<le> 10 ^ 9"
  shows "\<bar>round64 (round64 (v * knot_factor) / knot_factor) - v\<bar> \<le> 1 / 10 ^ 6"
proof -
  define y where "y = round64 (v * knot_factor)"
  define w where "w = y / knot_factor"
  note f = knot_factor_bounds
  have "\<bar>v * knot_factor\<bar> = \<bar>v\<bar> * knot_factor"
    using f by (simp add: abs_mult)
  also have "\<dots> \<le> \<bar>v\<bar> * 1.86"
    using f by (intro mult_left_mono) auto
  also have "\<dots> < 2 ^ Suc 30" using assms by simp
  finally have e1: "\<bar>y - v * knot_factor\<bar> \<le> 2 ^ 30 / 2 ^ 53"
    unfolding y_def by (rule round64_bound)
  have "w - v = (y - v * knot_factor) / knot_factor"
    using f by (simp add: w_def field_simps)
  then have "\<bar>w - v\<bar> = \<bar>y - v * knot_factor\<bar> / knot_factor"
    using f by simp
  also have "\<dots> \<le> (2 ^ 30 / 2 ^ 53) / 1"
    using e1 f by (intro frac_le) auto
  finally have e2: "\<bar>w - v\<bar> \<le> (2 ^ 30 / 2 ^ 53) / 1" .
  have "\<bar>w\<bar> < 2 ^ Suc 30"
    by (rule abs_near [OF e2 _ assms]) simp
  then have e3: "\<bar>round64 w - w\<bar> \<le> 2 ^ 30 / 2 ^ 53"
    by (rule round64_bound)
  have "\<bar>round64 w - v\<bar> \<le> 1 / 10 ^ 6"
    by (rule abs_sum2 [OF e3 e2]) simp
  then show ?thesis by (simp add: w_def y_def)
qed

text \<open>The two conversions at the speeds where the round trip leaves the tolerance.\<close>

lemma big_kmh_to_knot:
  "to_knot \<lparr>val = 64335349840, unit = ''kmh'', time = t\<rparr> =
     \<lparr>val = 4553219748503499 / 131072, unit = ''knot'', time = t\<rparr>"
  by (simp add: to_knot_def Speed_def Value_init_def knot_factor_eq round64_evals)

lemma big_kmh_back:
  "to_kmh \<lparr>val = 4553219748503499 / 131072, unit = ''knot'', time = t\<rparr> =
     \<lparr>val = 8432562974228481 / 131072, unit = ''kmh'', time = t\<rparr>"
  by (simp add: to_kmh_def Speed_def Value_init_def knot_factor_eq round64_evals)

lemma big_knot_to_kmh:
  "to_kmh \<lparr>val = 6860041853998457 / 8192, unit = ''knot'', time = t\<rparr> =
     \<lparr>val = 6352398756802571 / 4096, unit = ''kmh'', time = t\<rparr>"
  by (simp add: to_kmh_def Speed_def Value_init_def knot_factor_eq round64_evals)

lemma big_knot_back:
  "to_knot \<lparr>val = 6352398756802571 / 4096, unit = ''kmh'', time = t\<rparr> =
     \<lparr>val = 857505231749807 / 1024, unit = ''knot'', time = t\<rparr>"
  by (simp add: to_knot_def Speed_def Value_init_def knot_factor_eq round64_evals)

text \<open>
  Claim C9, as stated, fails. The round trip is not within 1e-6 for every speed: the
  two conversions each round their result to binary64, and for a large value the two
  roundings add up to more than the tolerance.
  \<^verbatim>\<open>Speed(64335349840.0, "kmh", t).to_knot().to_kmh().value()\<close> is
  \<open>64335349840 + 1 / 2 ^ 17\<close>, which is 7.6e-6 away from the original, and the
  speed of \<open>6860041853998457 / 8192\<close> knots (837407452880.671) comes back from km/h
  lower by \<open>1 / 8192\<close>, which is 1.2e-4.
\<close>

theorem speed_round_trip_counterexample:
  "val (to_kmh (to_knot \<lparr>val = 64335349840, unit = ''kmh'', time = (0, 0, 0)\<rparr>)) =
     64335349840 + 1 / 2 ^ 17 \<and>
   1 / 10 ^ 6 <
     \<bar>val (to_kmh (to_knot \<lparr>val = 64335349840, unit = ''kmh'', time = (0, 0, 0)\<rparr>)) -
      val \<lparr>val = 64335349840, unit = ''kmh'', time = (0, 0, 0)\<rparr>\<bar> \<and>
   val (to_knot (to_kmh \<lparr>val = 6860041853998457 / 8192, unit = ''knot'', time = (0, 0, 0)\<rparr>)) =
     6860041853998457 / 8192 - 1 / 8192 \<and>
   1 / 10 ^ 6 <
     \<bar>val (to_knot (to_kmh \<lparr>val = 6860041853998457 / 8192, unit = ''knot'', time = (0, 0, 0)\<rparr>)) -
      val \<lparr>val = 6860041853998457 / 8192, unit = ''knot'', time = (0, 0, 0)\<rparr>\<bar>"
  by (simp add: big_kmh_to_knot big_kmh_back big_knot_to_kmh big_knot_back)

text \<open>
  Claim C9, amended. The factor of both conversions is the literal \<^verbatim>\<open>1.85200\<close>, the
  binary64 number \<open>8340666509890159 / 2 ^ 52\<close>. A speed in knots (unit \<^verbatim>\<open>knot\<close> or
  \<^verbatim>\<open>N\<close>) is converted to km/h by multiplying by it, the product rounded to binary64
  (for a value below \<open>2 ^ 1023\<close> in magnitude, where the product is finite), and a speed
  in km/h (unit \<^verbatim>\<open>kmh\<close> or \<^verbatim>\<open>K\<close>) to knots by dividing by it, the quotient rounded
  to binary64; the time is kept. Converting to the unit already held returns the same
  object. For a speed of magnitude at most \<open>10 ^ 9\<close>, one conversion is within 1e-6 of
  the exact product or quotient by 1.852, and the round trip from km/h to knots and
  back, and the one from knots to km/h and back, give the value back within 1e-6, in
  the original kind of unit.
\<close>

theorem speed_conversion:
  "knot_factor = 8340666509890159 / 2 ^ 52 \<and>
   ((unit s = ''knot'' \<or> unit s = ''N'') \<and> \<bar>val s\<bar> < 2 ^ 1023 \<longrightarrow>
      to_kmh s = \<lparr>val = round64 (val s * knot_factor), unit = ''kmh'', time = time s\<rparr>) \<and>
   (unit s = ''kmh'' \<or> unit s = ''K'' \<longrightarrow>
      to_knot s = \<lparr>val = round64 (val s / knot_factor), unit = ''knot'', time = time s\<rparr>) \<and>
   (unit s = ''kmh'' \<or> unit s = ''K'' \<longrightarrow> to_kmh s = s) \<and>
   (unit s = ''knot'' \<or> unit s = ''N'' \<longrightarrow> to_knot s = s) \<and>
   ((unit s = ''kmh'' \<or> unit s = ''K'') \<and> \<bar>val s\<bar> \<le> 10 ^ 9 \<longrightarrow>
      \<bar>val (to_knot s) - val s / 1.852\<bar> \<le> 1 / 10 ^ 6 \<and>
      \<bar>val (to_kmh (to_knot s)) - val s\<bar> \<le> 1 / 10 ^ 6 \<and>
      unit (to_kmh (to_knot s)) = ''kmh'') \<and>
   ((unit s = ''knot'' \<or> unit s = ''N'') \<and> \<bar>val s\<bar> \<le> 10 ^ 9 \<longrightarrow>
      \<bar>val (to_kmh s) - val s * 1.852\<bar> \<le> 1 / 10 ^ 6 \<and>
      \<bar>val (to_knot (to_kmh s)) - val s\<bar> \<le> 1 / 10 ^ 6 \<and>
      unit (to_knot (to_kmh s)) = ''knot'')"
proof -
  have "(unit s = ''kmh'' \<or> unit s = ''K'') \<and> \<bar>val s\<bar> \<le> 10 ^ 9 \<longrightarrow>
      \<bar>val (to_knot s) - val s / 1.852\<bar> \<le> 1 / 10 ^ 6 \<and>
      \<bar>val (to_kmh (to_knot s)) - val s\<bar> \<le> 1 / 10 ^ 6 \<and>
      unit (to_kmh (to_knot s)) = ''kmh''"
    using to_knot_near [of "val s"] kmh_roundtrip [of "val s"]
    by (auto simp: to_kmh_def to_knot_def Speed_def Value_init_def)
  moreover have "(unit s = ''knot'' \<or> unit s = ''N'') \<and> \<bar>val s\<bar> \<le> 10 ^ 9 \<longrightarrow>
      \<bar>val (to_kmh s) - val s * 1.852\<bar> \<le> 1 / 10 ^ 6 \<and>
      \<bar>val (to_knot (to_kmh s)) - val s\<bar> \<le> 1 / 10 ^ 6 \<and>
      unit (to_knot (to_kmh s)) = ''knot''"
    using to_kmh_near [of "val s"] knot_roundtrip [of "val s"]
    by (auto simp: to_kmh_def to_knot_def Speed_def Value_init_def)
  moreover have "(unit s = ''knot'' \<or> unit s = ''N'') \<and> \<bar>val s\<bar> < 2 ^ 1023 \<longrightarrow>
      to_kmh s = \<lparr>val = round64 (val s * knot_factor), unit = ''kmh'', time = time s\<rparr>"
    by (auto simp: to_kmh_def Speed_def Value_init_def)
  moreover have "unit s = ''kmh'' \<or> unit s = ''K'' \<longrightarrow>
      to_knot s = \<lparr>val = round64 (val s / knot_factor), unit = ''knot'', time = time s\<rparr>"
    by (auto simp: to_knot_def Speed_def Value_init_def)
  moreover have "unit s = ''kmh'' \<or> unit s = ''K'' \<longrightarrow> to_kmh s = s"
    by (auto simp: to_kmh_def)
  moreover have "unit s = ''knot'' \<or> unit s = ''N'' \<longrightarrow> to_knot s = s"
    by (auto simp: to_knot_def)
  ultimately show ?thesis
    using knot_factor_eq by blast
qed

lemma kmh_100_to_knot:
  "round64 (100 / knot_factor) = 3799608216936501 / 70368744177664"
  unfolding knot_factor_eq by (simp add: round64_evals)

lemma knot_54_to_kmh:
  "round64 (54 * knot_factor) = 3518718683859911 / 35184372088832"
  unfolding knot_factor_eq by (simp add: round64_evals)

theorem speed_conversion_witness:
  "to_knot \<lparr>val = 100, unit = ''kmh'', time = (0, 0, 0)\<rparr> =
     \<lparr>val = 3799608216936501 / 70368744177664, unit = ''knot'', time = (0, 0, 0)\<rparr> \<and>
   to_kmh \<lparr>val = 100, unit = ''kmh'', time = (0, 0, 0)\<rparr> =
     \<lparr>val = 100, unit = ''kmh'', time = (0, 0, 0)\<rparr> \<and>
   \<bar>val (to_kmh (to_knot \<lparr>val = 100, unit = ''kmh'', time = (0, 0, 0)\<rparr>)) - 100\<bar> \<le> 1 / 10 ^ 6 \<and>
   to_kmh \<lparr>val = 54, unit = ''knot'', time = (0, 0, 0)\<rparr> =
     \<lparr>val = 3518718683859911 / 35184372088832, unit = ''kmh'', time = (0, 0, 0)\<rparr> \<and>
   to_knot \<lparr>val = 54, unit = ''knot'', time = (0, 0, 0)\<rparr> =
     \<lparr>val = 54, unit = ''knot'', time = (0, 0, 0)\<rparr> \<and>
   \<bar>val (to_knot (to_kmh \<lparr>val = 54, unit = ''knot'', time = (0, 0, 0)\<rparr>)) - 54\<bar> \<le> 1 / 10 ^ 6"
proof -
  define a :: Value where "a = \<lparr>val = 100, unit = ''kmh'', time = (0, 0, 0)\<rparr>"
  define b :: Value where "b = \<lparr>val = 54, unit = ''knot'', time = (0, 0, 0)\<rparr>"
  have ha: "unit a = ''kmh'' \<or> unit a = ''K''" "\<bar>val a\<bar> \<le> 10 ^ 9"
    by (simp_all add: a_def)
  have hb: "unit b = ''knot'' \<or> unit b = ''N''" "\<bar>val b\<bar> \<le> 10 ^ 9" "\<bar>val b\<bar> < 2 ^ 1023"
    by (simp_all add: b_def)
  have "to_knot a = \<lparr>val = round64 (val a / knot_factor), unit = ''knot'', time = time a\<rparr>"
    using speed_conversion [of a] ha by blast
  then have a1: "to_knot a =
      \<lparr>val = 3799608216936501 / 70368744177664, unit = ''knot'', time = (0, 0, 0)\<rparr>"
    by (simp add: a_def kmh_100_to_knot)
  have a2: "to_kmh a = a"
    using speed_conversion [of a] ha by blast
  have "\<bar>val (to_kmh (to_knot a)) - val a\<bar> \<le> 1 / 10 ^ 6"
    using speed_conversion [of a] ha by blast
  then have a3: "\<bar>val (to_kmh (to_knot a)) - 100\<bar> \<le> 1 / 10 ^ 6"
    by (simp add: a_def)
  have "to_kmh b = \<lparr>val = round64 (val b * knot_factor), unit = ''kmh'', time = time b\<rparr>"
    using speed_conversion [of b] hb by blast
  then have b1: "to_kmh b =
      \<lparr>val = 3518718683859911 / 35184372088832, unit = ''kmh'', time = (0, 0, 0)\<rparr>"
    by (simp add: b_def knot_54_to_kmh)
  have b2: "to_knot b = b"
    using speed_conversion [of b] hb by blast
  have "\<bar>val (to_knot (to_kmh b)) - val b\<bar> \<le> 1 / 10 ^ 6"
    using speed_conversion [of b] hb by blast
  then have b3: "\<bar>val (to_knot (to_kmh b)) - 54\<bar> \<le> 1 / 10 ^ 6"
    by (simp add: b_def)
  show ?thesis
    using a1 a2 a3 b1 b2 b3 unfolding a_def b_def by (intro conjI)
qed

section \<open>The sign of a position\<close>

text \<open>
  Claim C10. \<^verbatim>\<open>Position(v, u, t)\<close> keeps \<open>v\<close> for the tags \<^verbatim>\<open>N\<close> and \<^verbatim>\<open>E\<close> and
  negates it for every other tag, the empty string and unknown tags included. So the
  latitude and longitude setters, given a hemisphere field that is not \<^verbatim>\<open>N\<close> or
  \<^verbatim>\<open>E\<close>, store the negated coordinate without any error.
\<close>

theorem position_sign:
  "Position v u t = \<lparr>val = (if u = ''N'' \<or> u = ''E'' then v else - v), unit = u, time = t\<rparr> \<and>
   (u \<noteq> ''N'' \<and> u \<noteq> ''E'' \<longrightarrow> val (Position v u t) = - v) \<and>
   (vs \<noteq> [] \<and> unset_or_older (f_lat s) t \<and> float_py (take 2 vs) = Inr a \<and>
    float_py (drop 2 vs) = Inr b \<and> u \<noteq> ''N'' \<and> u \<noteq> ''E'' \<longrightarrow>
      set_lat vs u t s = Inr (s\<lparr>f_lat := Some \<lparr>val = - (a + b / 60), unit = u, time = t\<rparr>\<rparr>)) \<and>
   (vs \<noteq> [] \<and> unset_or_older (f_long s) t \<and> float_py (take 3 vs) = Inr a \<and>
    float_py (drop 3 vs) = Inr b \<and> u \<noteq> ''N'' \<and> u \<noteq> ''E'' \<longrightarrow>
      set_long vs u t s = Inr (s\<lparr>f_long := Some \<lparr>val = - (a + b / 60), unit = u, time = t\<rparr>\<rparr>))"
  by (simp add: Position_def Value_init_def set_lat_def set_long_def)

theorem position_sign_witness:
  "Position 12.5 ''S'' (0, 0, 0) = \<lparr>val = - 12.5, unit = ''S'', time = (0, 0, 0)\<rparr> \<and>
   Position 12.5 ''N'' (0, 0, 0) = \<lparr>val = 12.5, unit = ''N'', time = (0, 0, 0)\<rparr> \<and>
   val (Position 12.5 [] (0, 0, 0)) = - 12.5 \<and>
   val (Position 12.5 ''n'' (0, 0, 0)) = - 12.5 \<and>
   set_lat ''4916.45'' [] (22, 54, 44) Location_init =
     Inr (Location_init\<lparr>f_lat := Some \<lparr>val = - (49 + 16.45 / 60), unit = [], time = (22, 54, 44)\<rparr>\<rparr>) \<and>
   set_long ''12311.12'' ''?'' (22, 54, 44) Location_init =
     Inr (Location_init\<lparr>f_long := Some \<lparr>val = - (123 + 11.12 / 60), unit = ''?'', time = (22, 54, 44)\<rparr>\<rparr>) \<and>
   Location_set ''$GPGLL'' gll_no_hemisphere Location_init =
     (Inr True,
      Location_init
        \<lparr>f_valid := True,
         f_lat := Some \<lparr>val = - (49 + 16.45 / 60), unit = [], time = (22, 54, 44)\<rparr>,
         f_long := Some \<lparr>val = - (123 + 11.12 / 60), unit = ''W'', time = (22, 54, 44)\<rparr>\<rparr>)"
  using position_sign [of "12.5" "''S''" "(0, 0, 0)"] position_sign [of "12.5" "''N''" "(0, 0, 0)"]
    position_sign [of "12.5" "[]" "(0, 0, 0)" "''4916.45''" Location_init 49 "16.45"]
    position_sign [of "12.5" "''n''" "(0, 0, 0)"]
    position_sign [of "12.5" "''?''" "(22, 54, 44)" "''12311.12''" Location_init 123 "11.12"]
  by (simp add: evals)

section \<open>The satellite count\<close>

lemma setters_keep_satellites:
  "set_lat v d t a = Inr b \<Longrightarrow> f_satellites b = f_satellites a"
  "set_long v d t a = Inr b \<Longrightarrow> f_satellites b = f_satellites a"
  "set_speed v u t a = Inr b \<Longrightarrow> f_satellites b = f_satellites a"
  "set_course v t a = Inr b \<Longrightarrow> f_satellites b = f_satellites a"
  "set_hdop v t a = Inr b \<Longrightarrow> f_satellites b = f_satellites a"
  by (auto simp: set_lat_def set_long_def set_speed_def set_course_def set_hdop_def
        split: if_splits sum.splits)

lemma steps_keep_satellites:
  "0 \<le> f_satellites a \<Longrightarrow> GGA_satellites data a = Inr b \<Longrightarrow> f_satellites b = f_satellites a"
  "GGA_hdop data t a = Inr b \<Longrightarrow> f_satellites b = f_satellites a"
  "GGA_alt data t a = Inr b \<Longrightarrow> f_satellites b = f_satellites a"
  "GGA_height data t a = Inr b \<Longrightarrow> f_satellites b = f_satellites a"
  "RMC_speed data t a = Inr b \<Longrightarrow> f_satellites b = f_satellites a"
  "RMC_course data t a = Inr b \<Longrightarrow> f_satellites b = f_satellites a"
  "VTG_course data a = Inr b \<Longrightarrow> f_satellites b = f_satellites a"
  by (auto simp: GGA_satellites_def GGA_hdop_def GGA_alt_def GGA_height_def RMC_speed_def
        RMC_course_def VTG_course_def setters_keep_satellites split: if_splits sum.splits)

lemma run_keeps_satellites:
  assumes "0 \<le> f_satellites s"
    and "\<And>f a b. f \<in> set fs \<Longrightarrow> 0 \<le> f_satellites a \<Longrightarrow> f a = Inr b \<Longrightarrow>
           f_satellites b = f_satellites a"
  shows "f_satellites (snd (run fs s)) = f_satellites s"
proof (rule run_preserves [where P = "\<lambda>a. f_satellites a = f_satellites s"])
  show "f_satellites s = f_satellites s" by simp
next
  fix f a b
  assume "f \<in> set fs" "f_satellites a = f_satellites s" "f a = Inr b"
  then show "f_satellites b = f_satellites s" using assms by metis
qed

lemma set_GGA_keeps_satellites:
  assumes "0 \<le> f_satellites s"
  shows "f_satellites (snd (set_GGA data s)) = f_satellites s"
proof (cases "time_from_seg (data ! 0)")
  case (Inl e)
  then show ?thesis by (simp add: set_GGA_def)
next
  case (Inr t)
  have "f_satellites (snd (run [set_lat (data ! 1) (data ! 2) t,
          set_long (data ! 3) (data ! 4) t, GGA_satellites data, GGA_hdop data t,
          GGA_alt data t, GGA_height data t] s)) = f_satellites s"
    by (rule run_keeps_satellites [OF assms])
       (auto dest: setters_keep_satellites steps_keep_satellites)
  then show ?thesis using Inr by (simp add: set_GGA_def)
qed

lemma set_GLL_keeps_satellites:
  assumes "0 \<le> f_satellites s"
  shows "f_satellites (snd (set_GLL data s)) = f_satellites s"
proof (cases "time_from_seg (data ! 4)")
  case (Inl e)
  then show ?thesis by (simp add: set_GLL_def)
next
  case (Inr t)
  have "f_satellites (snd (run [set_lat (data ! 0) (data ! 1) t,
          set_long (data ! 2) (data ! 3) t] s)) = f_satellites s"
    by (rule run_keeps_satellites [OF assms]) (auto dest: setters_keep_satellites)
  then show ?thesis using Inr by (simp add: set_GLL_def)
qed

lemma set_RMC_keeps_satellites:
  assumes "0 \<le> f_satellites s"
  shows "f_satellites (snd (set_RMC data s)) = f_satellites s"
proof (cases "time_from_seg (data ! 0)")
  case (Inl e)
  then show ?thesis by (simp add: set_RMC_def)
next
  case (Inr t)
  have "f_satellites (snd (run [set_lat (data ! 2) (data ! 3) t,
          set_long (data ! 4) (data ! 5) t, RMC_speed data t, RMC_course data t] s)) =
        f_satellites s"
    by (rule run_keeps_satellites [OF assms])
       (auto dest: setters_keep_satellites steps_keep_satellites)
  then show ?thesis using Inr by (simp add: set_RMC_def)
qed

lemma set_VTG_keeps_satellites:
  assumes "0 \<le> f_satellites s"
  shows "f_satellites (snd (set_VTG data s)) = f_satellites s"
proof -
  have "f_satellites (snd (run [set_speed (data ! 4) (data ! 6) (0, 0, 0),
          VTG_course data] s)) = f_satellites s"
    by (rule run_keeps_satellites [OF assms])
       (auto dest: setters_keep_satellites steps_keep_satellites)
  then show ?thesis by (simp add: set_VTG_def)
qed

lemma dispatch_keeps_satellites:
  assumes "0 \<le> f_satellites s" and "msgid \<noteq> ''$GPGSV''"
  shows "f_satellites (snd (dispatch msgid data s)) = f_satellites s"
  using assms
  by (simp add: dispatch_def set_GGA_keeps_satellites set_GLL_keeps_satellites
        set_RMC_keeps_satellites set_VTG_keeps_satellites)

lemma Location_set_keeps_satellites:
  assumes "0 \<le> f_satellites s" and "msgid \<noteq> ''$GPGSV''"
  shows "f_satellites (snd (Location_set msgid segment s)) = f_satellites s"
proof -
  obtain r s' where eq: "dispatch msgid (split_comma segment) s = (r, s')"
    by (cases "dispatch msgid (split_comma segment) s")
  with dispatch_keeps_satellites [OF assms, of "split_comma segment"]
  have "f_satellites s' = f_satellites s" by simp
  then show ?thesis
    unfolding Location_set_def Let_def eq by (cases r) simp_all
qed

text \<open>
  Claim C4, as stated, fails for a GSV sentence: after the GGA example has set the
  count to eight, a GSV payload of a group of one message sets it to five.
\<close>

theorem gsv_overwrites_satellites:
  "f_satellites gga_location = 8 \<and>
   Location_set ''$GPGSV'' gsv_segment gga_location =
     (Inr True, gga_location\<lparr>f_satellites := 5\<rparr>)"
  unfolding gga_location_eq by (simp add: builtin_evals location_evals example_evals Let_def)

text \<open>
  Claim C4, amended. Once the satellite count is not negative, no sentence with an
  identifier other than \<^verbatim>\<open>$GPGSV\<close> changes it, whether \<^verbatim>\<open>set\<close> returns or raises;
  in particular the GGA branch assigns the count only while it is negative.
\<close>

theorem satellites_kept:
  "0 \<le> f_satellites s \<and> msgid \<noteq> ''$GPGSV'' \<longrightarrow>
     f_satellites (snd (Location_set msgid segment s)) = f_satellites s"
  using Location_set_keeps_satellites by blast

theorem satellites_kept_witness:
  "f_satellites gga_location = 8 \<and>
   seg_set (split_comma gga_later) 6 \<and> split_comma gga_later ! 6 = ''05'' \<and>
   f_satellites (snd (Location_set ''$GPGGA'' gga_later gga_location)) = 8"
proof -
  have "f_satellites gga_location = 8"
    by (simp add: gga_location_eq)
  moreover have "seg_set (split_comma gga_later) 6 \<and> split_comma gga_later ! 6 = ''05''"
    by (simp add: gga_later_def seg_set_def)
  ultimately show ?thesis
    using satellites_kept [of gga_location "''$GPGGA''" gga_later] by simp
qed

section \<open>What leaves \<^verbatim>\<open>set\<close>: a result or an exception\<close>

lemma int_py_error: "int_py v = Inl e \<Longrightarrow> e = ValueError"
  by (auto simp: int_py_def split: prod.splits if_splits option.splits)

lemma float_py_error: "float_py v = Inl e \<Longrightarrow> e = ValueError"
  by (auto simp: float_py_def Let_def split: prod.splits if_splits option.splits)

lemma time_from_seg_error: "time_from_seg ts = Inl e \<Longrightarrow> e = ValueError"
  by (auto simp: time_from_seg_def split: sum.splits dest: int_py_error float_py_error)

lemma is_floatD: "is_float v \<Longrightarrow> \<exists>x. float_py v = Inr x"
  by (cases "float_py v") (simp_all add: is_float_def)

lemma is_intD: "is_int v \<Longrightarrow> \<exists>n. int_py v = Inr n"
  by (cases "int_py v") (simp_all add: is_int_def)

lemma is_timeD: "is_time ts \<Longrightarrow> \<exists>t. time_from_seg ts = Inr t"
  by (cases "time_from_seg ts") (auto simp: is_time_def)

text \<open>A time field of fewer than five characters has no seconds: \<^verbatim>\<open>ts[4:]\<close> is
  empty, so the third conversion raises if neither of the first two did.\<close>

lemma float_py_empty: "float_py [] = Inl ValueError"
  by (simp add: float_py_def strip_def drop_underscores_def)

lemma short_time_rejected:
  assumes "length ts < 5"
  shows "time_from_seg ts = Inl ValueError"
proof -
  have "drop 4 ts = []" using assms by simp
  then show ?thesis
    by (auto simp: time_from_seg_def float_py_empty split: sum.splits dest: int_py_error)
qed

lemma setters_total:
  "lat_field_ok v \<Longrightarrow> \<exists>b. set_lat v d t a = Inr b"
  "long_field_ok v \<Longrightarrow> \<exists>b. set_long v d t a = Inr b"
  "num_field_ok v \<Longrightarrow> \<exists>b. set_speed v u t a = Inr b"
  "num_field_ok v \<Longrightarrow> \<exists>b. set_course v t a = Inr b"
  "num_field_ok v \<Longrightarrow> \<exists>b. set_hdop v t a = Inr b"
  by (auto simp: set_lat_def set_long_def set_speed_def set_course_def set_hdop_def
        lat_field_ok_def long_field_ok_def num_field_ok_def dest!: is_floatD)

lemma steps_total:
  "(seg_set data 6 \<longrightarrow> is_int (data ! 6)) \<Longrightarrow> \<exists>b. GGA_satellites data a = Inr b"
  "(seg_set data 7 \<longrightarrow> is_float (data ! 7)) \<Longrightarrow> \<exists>b. GGA_hdop data t a = Inr b"
  "(seg_set data 8 \<longrightarrow> is_float (data ! 8)) \<Longrightarrow> \<exists>b. GGA_alt data t a = Inr b"
  "(seg_set data 10 \<longrightarrow> is_float (data ! 10)) \<Longrightarrow> \<exists>b. GGA_height data t a = Inr b"
  "8 \<le> length data \<Longrightarrow> num_field_ok (data ! 6) \<Longrightarrow> \<exists>b. RMC_speed data t a = Inr b"
  "8 \<le> length data \<Longrightarrow> num_field_ok (data ! 7) \<Longrightarrow> \<exists>b. RMC_course data t a = Inr b"
  "is_int (data ! 2) \<Longrightarrow> \<exists>b. GSV_satellites data a = Inr b"
  by (auto simp: GGA_satellites_def GGA_hdop_def GGA_alt_def GGA_height_def RMC_speed_def
        RMC_course_def GSV_satellites_def num_field_ok_def setters_total
        dest!: is_floatD is_intD)

lemma run_total:
  assumes "\<And>f a. f \<in> set fs \<Longrightarrow> \<exists>b. f a = Inr b"
  shows "fst (run fs s) = None"
  using assms
proof (induction fs arbitrary: s)
  case Nil
  then show ?case by simp
next
  case (Cons f fs)
  have "f \<in> set (f # fs)" by simp
  then obtain b where b: "f s = Inr b" using Cons.prems by blast
  have "fst (run fs b) = None"
    by (rule Cons.IH) (meson Cons.prems list.set_intros(2))
  then show ?case using b by simp
qed

lemma dispatch_returns:
  assumes "guard msgid data" and "fields_ok msgid data"
  shows "fst (dispatch msgid data s) = None"
proof -
  consider "msgid = ''$GPGGA''" | "msgid = ''$GPGLL''" | "msgid = ''$GPRMC''" | "msgid = ''$GPGSV''"
    using assms(2) by (auto simp: fields_ok_def split: if_splits)
  then show ?thesis
  proof cases
    case 1
    with assms obtain t where t: "time_from_seg (data ! 0) = Inr t"
      by (auto simp: fields_ok_def dest: is_timeD)
    have "fst (run [set_lat (data ! 1) (data ! 2) t, set_long (data ! 3) (data ! 4) t,
            GGA_satellites data, GGA_hdop data t, GGA_alt data t, GGA_height data t] s) = None"
      using assms(2) 1 by (intro run_total) (auto simp: fields_ok_def setters_total steps_total)
    then show ?thesis using 1 t assms(1) by (simp add: dispatch_def set_GGA_def guard_def)
  next
    case 2
    with assms obtain t where t: "time_from_seg (data ! 4) = Inr t"
      by (auto simp: fields_ok_def dest: is_timeD)
    have "fst (run [set_lat (data ! 0) (data ! 1) t, set_long (data ! 2) (data ! 3) t] s) = None"
      using assms(2) 2 by (intro run_total) (auto simp: fields_ok_def setters_total)
    then show ?thesis using 2 t assms(1) by (simp add: dispatch_def set_GLL_def guard_def)
  next
    case 3
    with assms obtain t where t: "time_from_seg (data ! 0) = Inr t"
      by (auto simp: fields_ok_def dest: is_timeD)
    have "fst (run [set_lat (data ! 2) (data ! 3) t, set_long (data ! 4) (data ! 5) t,
            RMC_speed data t, RMC_course data t] s) = None"
      using assms(2) 3 by (intro run_total) (auto simp: fields_ok_def setters_total steps_total)
    then show ?thesis using 3 t assms(1) by (simp add: dispatch_def set_RMC_def guard_def)
  next
    case 4
    have "fst (run [GSV_satellites data] s) = None"
      using assms(2) 4 by (intro run_total) (auto simp: fields_ok_def steps_total)
    then show ?thesis using 4 assms(1) by (simp add: dispatch_def set_GSV_def guard_def)
  qed
qed

lemma handled_cases:
  obtains "msgid = ''$GPGGA''" | "msgid = ''$GPGLL''" | "msgid = ''$GPRMC''"
  | "msgid = ''$GPVTG''" | "msgid = ''$GPGSV''"
  | "msgid \<noteq> ''$GPGGA''" "msgid \<noteq> ''$GPGLL''" "msgid \<noteq> ''$GPRMC''"
    "msgid \<noteq> ''$GPVTG''" "msgid \<noteq> ''$GPGSV''"
  by blast

lemma dispatch_rejected:
  assumes "\<not> guard msgid data"
  shows "dispatch msgid data s = (None, s)"
proof (cases msgid rule: handled_cases)
  case 1
  then show ?thesis using assms by (auto simp: dispatch_def guard_def set_GGA_def)
next
  case 2
  then show ?thesis using assms by (auto simp: dispatch_def guard_def set_GLL_def)
next
  case 3
  then show ?thesis using assms by (auto simp: dispatch_def guard_def set_RMC_def)
next
  case 4
  then show ?thesis using assms by (auto simp: dispatch_def guard_def set_VTG_def)
next
  case 5
  then show ?thesis using assms by (auto simp: dispatch_def guard_def set_GSV_def)
next
  case 6
  then show ?thesis by (simp add: dispatch_def)
qed

lemma dispatch_bad_time:
  assumes "guard msgid data" and "time_index msgid = Some i" and "length (data ! i) < 5"
  shows "dispatch msgid data s = (Some ValueError, s)"
proof (cases msgid rule: handled_cases)
  case 1
  then show ?thesis using assms short_time_rejected [of "data ! 0"]
    by (simp add: dispatch_def guard_def time_index_def set_GGA_def)
next
  case 2
  then show ?thesis using assms short_time_rejected [of "data ! 4"]
    by (simp add: dispatch_def guard_def time_index_def set_GLL_def)
next
  case 3
  then show ?thesis using assms short_time_rejected [of "data ! 0"]
    by (simp add: dispatch_def guard_def time_index_def set_RMC_def)
next
  case 4
  then show ?thesis using assms by (simp add: time_index_def)
next
  case 5
  then show ?thesis using assms by (simp add: time_index_def)
next
  case 6
  then show ?thesis using assms by (simp add: time_index_def)
qed

lemma gga_bad_long_result:
  "Location_set ''$GPGGA'' gga_bad_long Location_init =
     (Inl ValueError,
      Location_init\<lparr>f_lat := Some \<lparr>val = 48.1173, unit = ''N'', time = (12, 35, 19)\<rparr>\<rparr>)"
  by (simp add: evals)

text \<open>
  Claim C3, as stated, fails: a GGA sentence with a letter in its longitude makes
  \<^verbatim>\<open>set\<close> raise ValueError, and the latitude that the same sentence had already set
  stays set.
\<close>

theorem malformed_field_raises:
  "Location_set ''$GPGGA'' gga_bad_long Location_init =
     (Inl ValueError,
      Location_init\<lparr>f_lat := Some \<lparr>val = 48.1173, unit = ''N'', time = (12, 35, 19)\<rparr>\<rparr>)"
  by (rule gga_bad_long_result)

lemma update_raises:
  assumes "data \<noteq> []" and "last_byte (concat data) = [LF]"
    and "Location_set (take 6 (concat data)) (payload (concat data)) (d_data d) = (Inl e, loc)"
  shows "update now data d = (Some e, d\<lparr>d_data := loc\<rparr>)"
  using assms by (simp add: update_def Let_def)

text \<open>
  Claim C3, amended. \<^verbatim>\<open>set\<close> catches no exception. It returns without raising, and
  changes no field but \<open>valid\<close>, for every identifier that has no branch and every
  sentence that the guard of its branch rejects. It returns without raising for every
  GGA, GLL, RMC and GSV sentence that passes the guard when every string that the
  branch converts is a decimal literal of \<^verbatim>\<open>int\<close> or \<^verbatim>\<open>float\<close>: the slices
  \<^verbatim>\<open>ts[0:2]\<close>, \<^verbatim>\<open>ts[2:4]\<close> and \<^verbatim>\<open>ts[4:]\<close> of the time field, the slices
  \<^verbatim>\<open>v[0:2]\<close> and \<^verbatim>\<open>v[2:]\<close> of a latitude field that is not empty, the slices
  \<^verbatim>\<open>v[0:3]\<close> and \<^verbatim>\<open>v[3:]\<close> of a longitude field that is not empty, and the other
  numeric fields that the branch reads (for RMC with the eight fields the branch
  reads). Where the time field of a GGA, GLL or RMC sentence that passes the guard has
  fewer than five characters, so that its seconds are missing, ValueError leaves
  \<^verbatim>\<open>set\<close> with the location unchanged. And an
  exception that leaves \<^verbatim>\<open>set\<close> for a terminated buffer leaves \<^verbatim>\<open>__update\<close> and the
  reading loop as well, at the end of the input or when the next line that starts a
  sentence arrives: the lines after it are not read.
\<close>

theorem set_failures:
  "(\<not> guard msgid (split_comma segment) \<longrightarrow>
      Location_set msgid segment s =
        (Inr (f_lat s \<noteq> None \<and> f_long s \<noteq> None),
         s\<lparr>f_valid := (f_lat s \<noteq> None \<and> f_long s \<noteq> None)\<rparr>)) \<and>
   (guard msgid (split_comma segment) \<and> fields_ok msgid (split_comma segment) \<longrightarrow>
      fst (Location_set msgid segment s) = Inr (valid (snd (Location_set msgid segment s)))) \<and>
   (guard msgid (split_comma segment) \<and> time_index msgid = Some i \<and>
    length (split_comma segment ! i) < 5 \<longrightarrow>
      Location_set msgid segment s = (Inl ValueError, s)) \<and>
   (data \<noteq> [] \<and> last_byte (concat data) = [LF] \<and>
    Location_set (take 6 (concat data)) (payload (concat data)) (d_data d) = (Inl e, loc) \<longrightarrow>
      update now data d = (Some e, d\<lparr>d_data := loc\<rparr>) \<and>
      read_lines now [] data d = (Some e, d\<lparr>d_data := loc\<rparr>) \<and>
      read_lines now ((CHR ''$'' # l) # rest) data d = (Some e, d\<lparr>d_data := loc\<rparr>))"
proof (intro conjI impI)
  assume "\<not> guard msgid (split_comma segment)"
  then show "Location_set msgid segment s =
        (Inr (f_lat s \<noteq> None \<and> f_long s \<noteq> None),
         s\<lparr>f_valid := (f_lat s \<noteq> None \<and> f_long s \<noteq> None)\<rparr>)"
    by (simp add: Location_set_def dispatch_rejected)
next
  assume a: "guard msgid (split_comma segment) \<and> fields_ok msgid (split_comma segment)"
  obtain r s' where eq: "dispatch msgid (split_comma segment) s = (r, s')"
    by (cases "dispatch msgid (split_comma segment) s")
  with a dispatch_returns [of msgid "split_comma segment" s] have "r = None" by simp
  then show "fst (Location_set msgid segment s) = Inr (valid (snd (Location_set msgid segment s)))"
    by (simp add: Location_set_def eq Let_def valid_def)
next
  assume "guard msgid (split_comma segment) \<and> time_index msgid = Some i \<and>
    length (split_comma segment ! i) < 5"
  then show "Location_set msgid segment s = (Inl ValueError, s)"
    by (simp add: Location_set_def dispatch_bad_time)
next
  assume a: "data \<noteq> [] \<and> last_byte (concat data) = [LF] \<and>
    Location_set (take 6 (concat data)) (payload (concat data)) (d_data d) = (Inl e, loc)"
  then have u: "update now data d = (Some e, d\<lparr>d_data := loc\<rparr>)"
    by (simp add: update_raises)
  show "update now data d = (Some e, d\<lparr>d_data := loc\<rparr>)"
    by (rule u)
  show "read_lines now [] data d = (Some e, d\<lparr>d_data := loc\<rparr>)"
    using u by simp
  show "read_lines now ((CHR ''$'' # l) # rest) data d = (Some e, d\<lparr>d_data := loc\<rparr>)"
    using u by simp
qed

theorem set_failures_witness:
  "\<not> guard ''$GPGLL'' (split_comma gll_void) \<and>
   Location_set ''$GPGLL'' gll_void gga_location = (Inr True, gga_location) \<and>
   \<not> guard ''$GPZDA'' (split_comma ''201530.00,04,07,2002,00,00*60'') \<and>
   Location_set ''$GPZDA'' ''201530.00,04,07,2002,00,00*60'' Location_init =
     (Inr False, Location_init) \<and>
   guard ''$GPGGA'' (split_comma gga_segment) \<and>
   fields_ok ''$GPGGA'' (split_comma gga_segment) \<and>
   fst (Location_set ''$GPGGA'' gga_segment Location_init) = Inr True \<and>
   guard ''$GPGLL'' (split_comma gll_bad_time) \<and>
   time_index ''$GPGLL'' = Some 4 \<and>
   length (split_comma gll_bad_time ! 4) < 5 \<and>
   Location_set ''$GPGLL'' gll_bad_time gga_location = (Inl ValueError, gga_location) \<and>
   last_byte (concat [gga_bad_line]) = [LF] \<and>
   take 6 (concat [gga_bad_line]) = ''$GPGGA'' \<and>
   payload (concat [gga_bad_line]) = gga_bad_long \<and>
   read_lines 10 [gga_example] [gga_bad_line] (Data_init 0) =
     (Some ValueError,
      Data_init 0\<lparr>d_data :=
        Location_init\<lparr>f_lat := Some \<lparr>val = 48.1173, unit = ''N'', time = (12, 35, 19)\<rparr>\<rparr>\<rparr>)"
proof -
  have g1: "\<not> guard ''$GPGLL'' (split_comma gll_void)"
    by (simp add: guard_def gll_void_def)
  have g2: "\<not> guard ''$GPZDA'' (split_comma ''201530.00,04,07,2002,00,00*60'')"
    by (simp add: guard_def)
  have g3: "guard ''$GPGGA'' (split_comma gga_segment)"
    by (simp add: guard_def gga_segment_def)
  have f3: "fields_ok ''$GPGGA'' (split_comma gga_segment)"
    by (simp add: fields_ok_def gga_segment_def is_time_def is_float_def is_int_def
          lat_field_ok_def long_field_ok_def seg_set_def time_from_seg_def builtin_evals)
  have g4: "guard ''$GPGLL'' (split_comma gll_bad_time)"
    by (simp add: guard_def gll_bad_time_def)
  have t4: "time_index ''$GPGLL'' = Some 4"
    by (simp add: time_index_def)
  have n4: "length (split_comma gll_bad_time ! 4) < 5"
    by (simp add: gll_bad_time_def)
  have c1: "Location_set ''$GPGLL'' gll_void gga_location = (Inr True, gga_location)"
  proof -
    have "Location_set ''$GPGLL'' gll_void gga_location =
        (Inr (f_lat gga_location \<noteq> None \<and> f_long gga_location \<noteq> None),
         gga_location\<lparr>f_valid := (f_lat gga_location \<noteq> None \<and> f_long gga_location \<noteq> None)\<rparr>)"
      using set_failures [of "''$GPGLL''" gll_void gga_location] g1 by blast
    also have "\<dots> = (Inr True, gga_location)"
      by (simp add: gga_location_eq)
    finally show ?thesis .
  qed
  have c2: "Location_set ''$GPZDA'' ''201530.00,04,07,2002,00,00*60'' Location_init =
     (Inr False, Location_init)"
  proof -
    have "Location_set ''$GPZDA'' ''201530.00,04,07,2002,00,00*60'' Location_init =
        (Inr (f_lat Location_init \<noteq> None \<and> f_long Location_init \<noteq> None),
         Location_init\<lparr>f_valid := (f_lat Location_init \<noteq> None \<and> f_long Location_init \<noteq> None)\<rparr>)"
      using set_failures [of "''$GPZDA''" "''201530.00,04,07,2002,00,00*60''" Location_init] g2
      by blast
    also have "\<dots> = (Inr False, Location_init)"
      by (simp add: Location_init_def)
    finally show ?thesis .
  qed
  have c3: "fst (Location_set ''$GPGGA'' gga_segment Location_init) = Inr True"
  proof -
    have "fst (Location_set ''$GPGGA'' gga_segment Location_init) =
        Inr (valid (snd (Location_set ''$GPGGA'' gga_segment Location_init)))"
      using set_failures [of "''$GPGGA''" gga_segment Location_init] g3 f3 by blast
    also have "\<dots> = Inr True"
      using gga_location_eq by (simp add: gga_location_def valid_def)
    finally show ?thesis .
  qed
  have c4: "Location_set ''$GPGLL'' gll_bad_time gga_location = (Inl ValueError, gga_location)"
    using set_failures [of "''$GPGLL''" gll_bad_time gga_location 4] g4 t4 n4 by blast
  have l5: "last_byte (concat [gga_bad_line]) = [LF]"
    by (simp add: gga_bad_line_def last_byte_def)
  have i5: "take 6 (concat [gga_bad_line]) = ''$GPGGA''"
    by (simp add: gga_bad_line_def)
  have p5: "payload (concat [gga_bad_line]) = gga_bad_long"
    by (simp add: gga_bad_line_def gga_bad_long_def payload_def builtin_evals Let_def)
  have r5: "Location_set (take 6 (concat [gga_bad_line])) (payload (concat [gga_bad_line]))
        (d_data (Data_init 0)) =
      (Inl ValueError,
       Location_init\<lparr>f_lat := Some \<lparr>val = 48.1173, unit = ''N'', time = (12, 35, 19)\<rparr>\<rparr>)"
    unfolding i5 p5 using gga_bad_long_result by (simp add: Data_init_def)
  have d5: "gga_example = CHR ''$'' # tl gga_example"
    by (simp add: gga_example_def)
  have "read_lines 10 ((CHR ''$'' # tl gga_example) # []) [gga_bad_line] (Data_init 0) =
     (Some ValueError,
      Data_init 0\<lparr>d_data :=
        Location_init\<lparr>f_lat := Some \<lparr>val = 48.1173, unit = ''N'', time = (12, 35, 19)\<rparr>\<rparr>\<rparr>)"
    using set_failures [where data = "[gga_bad_line]" and d = "Data_init 0" and e = ValueError
        and loc = "Location_init\<lparr>f_lat := Some \<lparr>val = 48.1173, unit = ''N'', time = (12, 35, 19)\<rparr>\<rparr>"
        and now = 10 and l = "tl gga_example" and rest = "[]"] l5 r5
    by blast
  then have c5: "read_lines 10 [gga_example] [gga_bad_line] (Data_init 0) =
     (Some ValueError,
      Data_init 0\<lparr>d_data :=
        Location_init\<lparr>f_lat := Some \<lparr>val = 48.1173, unit = ''N'', time = (12, 35, 19)\<rparr>\<rparr>\<rparr>)"
    using d5 by simp
  show ?thesis
    by (intro conjI) (fact g1 g2 g3 f3 g4 t4 n4 c1 c2 c3 c4 l5 i5 p5 c5)+
qed

section \<open>Altitude and height of a GGA sentence\<close>

lemma run_Cons_None:
  "run (f # fs) s = (None, s') \<longleftrightarrow> (\<exists>m. f s = Inr m \<and> run fs m = (None, s'))"
  by (cases "f s") auto

lemma setters_keep_alt_height:
  "set_lat v d t a = Inr b \<Longrightarrow> f_alt b = f_alt a \<and> f_height b = f_height a"
  "set_long v d t a = Inr b \<Longrightarrow> f_alt b = f_alt a \<and> f_height b = f_height a"
  "GGA_satellites data a = Inr b \<Longrightarrow> f_alt b = f_alt a \<and> f_height b = f_height a"
  "GGA_hdop data t a = Inr b \<Longrightarrow> f_alt b = f_alt a \<and> f_height b = f_height a"
  by (auto simp: set_lat_def set_long_def GGA_satellites_def GGA_hdop_def set_hdop_def
        split: if_splits sum.splits)

lemma GGA_alt_result:
  assumes "GGA_alt data t a = Inr b"
  shows "f_height b = f_height a"
    and "\<not> seg_set data 8 \<Longrightarrow> f_alt b = f_alt a"
    and "seg_set data 8 \<Longrightarrow> \<exists>x. float_py (data ! 8) = Inr x \<and>
           f_alt b = Some (Distance x (if seg_set data 9 then data ! 9 else ''M'') t)"
  using assms by (auto simp: GGA_alt_def split: if_splits sum.splits)

lemma GGA_height_result:
  assumes "GGA_height data t a = Inr b"
  shows "f_alt b = f_alt a"
    and "\<not> seg_set data 10 \<Longrightarrow> f_height b = f_height a"
    and "seg_set data 10 \<Longrightarrow> \<not> seg_set data 11 \<Longrightarrow> \<exists>x. float_py (data ! 10) = Inr x \<and>
           f_height b = Some (Distance x ''M'' t)"
  using assms by (auto simp: GGA_height_def split: if_splits sum.splits)

lemma Location_set_GGA_returns:
  assumes "Location_set ''$GPGGA'' segment s = (Inr b, s'')"
  shows "\<exists>s'. set_GGA (split_comma segment) s = (None, s') \<and> f_alt s'' = f_alt s' \<and>
           f_height s'' = f_height s'"
proof -
  obtain r s' where eq: "set_GGA (split_comma segment) s = (r, s')"
    by (cases "set_GGA (split_comma segment) s")
  then have "dispatch ''$GPGGA'' (split_comma segment) s = (r, s')"
    by (simp add: dispatch_def)
  then show ?thesis
    using assms eq unfolding Location_set_def Let_def
    by (cases r) auto
qed

text \<open>
  Claim C5, as stated, fails for the height: with field 10 present and field 11 absent
  the unit of the height is \<^verbatim>\<open>M\<close>, not field 10.
\<close>

theorem height_unit_counterexample:
  "seg_set (split_comma gga_short) 10 \<and> \<not> seg_set (split_comma gga_short) 11 \<and>
   split_comma gga_short ! 10 = ''46.9'' \<and>
   f_height (snd (Location_set ''$GPGGA'' gga_short Location_init)) =
     Some \<lparr>val = 46.9, unit = ''M'', time = (12, 35, 19)\<rparr>"
  by (simp add: evals)

text \<open>
  Claim C5, amended. For a GGA sentence that passes the guard and from which \<^verbatim>\<open>set\<close>
  returns: when field 8 is present the altitude is replaced by the value of field 8 with
  the unit of field 9 if that is present and \<^verbatim>\<open>M\<close> otherwise, and is left as it was
  when field 8 is absent; when field 10 is present and field 11 is absent the height is
  replaced by the value of field 10 with the unit \<^verbatim>\<open>M\<close>, and it is left as it was when
  field 10 is absent. Both carry the time of the sentence.
\<close>

theorem gga_altitude_height_units:
  "Location_set ''$GPGGA'' segment s = (Inr b, s') \<and> data = split_comma segment \<and>
   guard ''$GPGGA'' data \<longrightarrow>
     (seg_set data 8 \<longrightarrow>
        (\<exists>a t. time_from_seg (data ! 0) = Inr t \<and> float_py (data ! 8) = Inr a \<and>
           f_alt s' = Some (Distance a (if seg_set data 9 then data ! 9 else ''M'') t))) \<and>
     (\<not> seg_set data 8 \<longrightarrow> f_alt s' = f_alt s) \<and>
     (seg_set data 10 \<and> \<not> seg_set data 11 \<longrightarrow>
        (\<exists>h t. time_from_seg (data ! 0) = Inr t \<and> float_py (data ! 10) = Inr h \<and>
           f_height s' = Some (Distance h ''M'' t))) \<and>
     (\<not> seg_set data 10 \<longrightarrow> f_height s' = f_height s)"
proof (intro impI, elim conjE)
  assume ret: "Location_set ''$GPGGA'' segment s = (Inr b, s')"
    and data: "data = split_comma segment" and g: "guard ''$GPGGA'' data"
  from Location_set_GGA_returns [OF ret] obtain s6 where
    s6: "set_GGA data s = (None, s6)" and fin: "f_alt s' = f_alt s6" "f_height s' = f_height s6"
    using data by blast
  from g have g': "6 \<le> length data \<and> (data ! 5 = ''1'' \<or> data ! 5 = ''2'' \<or> data ! 5 = ''6'')"
    by (simp add: guard_def)
  from s6 g' obtain t where t: "time_from_seg (data ! 0) = Inr t"
    and r: "run [set_lat (data ! 1) (data ! 2) t, set_long (data ! 3) (data ! 4) t,
              GGA_satellites data, GGA_hdop data t, GGA_alt data t, GGA_height data t] s
            = (None, s6)"
    by (auto simp: set_GGA_def split: sum.splits)
  from r obtain s1 s2 s3 s4 s5 where
    st: "set_lat (data ! 1) (data ! 2) t s = Inr s1" "set_long (data ! 3) (data ! 4) t s1 = Inr s2"
      "GGA_satellites data s2 = Inr s3" "GGA_hdop data t s3 = Inr s4"
      "GGA_alt data t s4 = Inr s5" "GGA_height data t s5 = Inr s6"
    unfolding run_Cons_None by auto
  have keep: "f_alt s4 = f_alt s" "f_height s4 = f_height s"
    using st(1-4) by (auto dest!: setters_keep_alt_height)
  show "(seg_set data 8 \<longrightarrow>
        (\<exists>a t. time_from_seg (data ! 0) = Inr t \<and> float_py (data ! 8) = Inr a \<and>
           f_alt s' = Some (Distance a (if seg_set data 9 then data ! 9 else ''M'') t))) \<and>
     (\<not> seg_set data 8 \<longrightarrow> f_alt s' = f_alt s) \<and>
     (seg_set data 10 \<and> \<not> seg_set data 11 \<longrightarrow>
        (\<exists>h t. time_from_seg (data ! 0) = Inr t \<and> float_py (data ! 10) = Inr h \<and>
           f_height s' = Some (Distance h ''M'' t))) \<and>
     (\<not> seg_set data 10 \<longrightarrow> f_height s' = f_height s)"
    using GGA_alt_result [OF st(5)] GGA_height_result [OF st(6)] keep fin t
    by auto
qed

theorem gga_altitude_height_units_witness:
  "Location_set ''$GPGGA'' gga_short Location_init =
     (Inr True, snd (Location_set ''$GPGGA'' gga_short Location_init)) \<and>
   guard ''$GPGGA'' (split_comma gga_short) \<and>
   seg_set (split_comma gga_short) 8 \<and> seg_set (split_comma gga_short) 9 \<and>
   seg_set (split_comma gga_short) 10 \<and> \<not> seg_set (split_comma gga_short) 11 \<and>
   f_alt (snd (Location_set ''$GPGGA'' gga_short Location_init)) =
     Some \<lparr>val = 1789.4, unit = ''F'', time = (12, 35, 19)\<rparr> \<and>
   f_height (snd (Location_set ''$GPGGA'' gga_short Location_init)) =
     Some \<lparr>val = 46.9, unit = ''M'', time = (12, 35, 19)\<rparr> \<and>
   Location_set ''$GPGGA'' gga_no_unit Location_init =
     (Inr True, snd (Location_set ''$GPGGA'' gga_no_unit Location_init)) \<and>
   guard ''$GPGGA'' (split_comma gga_no_unit) \<and>
   seg_set (split_comma gga_no_unit) 8 \<and> \<not> seg_set (split_comma gga_no_unit) 9 \<and>
   f_alt (snd (Location_set ''$GPGGA'' gga_no_unit Location_init)) =
     Some \<lparr>val = 545.4, unit = ''M'', time = (12, 35, 19)\<rparr> \<and>
   Location_set ''$GPGGA'' ''123519,4807.038,N,01131.000,E,1'' gga_location =
     (Inr True, gga_location) \<and>
   \<not> seg_set (split_comma ''123519,4807.038,N,01131.000,E,1'') 8 \<and>
   \<not> seg_set (split_comma ''123519,4807.038,N,01131.000,E,1'') 10"
proof -
  have r1: "Location_set ''$GPGGA'' gga_short Location_init =
     (Inr True, snd (Location_set ''$GPGGA'' gga_short Location_init))"
    by (simp add: evals)
  have r2: "Location_set ''$GPGGA'' gga_no_unit Location_init =
     (Inr True, snd (Location_set ''$GPGGA'' gga_no_unit Location_init))"
    by (simp add: evals)
  have r3: "Location_set ''$GPGGA'' ''123519,4807.038,N,01131.000,E,1'' gga_location =
     (Inr True, gga_location)"
    unfolding gga_location_eq
    by (simp add: builtin_evals value_evals location_evals Let_def less_prod_def)
  have g: "guard ''$GPGGA'' (split_comma gga_short)" "guard ''$GPGGA'' (split_comma gga_no_unit)"
    by (simp_all add: guard_def gga_short_def gga_no_unit_def)
  have p: "seg_set (split_comma gga_short) 8" "seg_set (split_comma gga_short) 9"
    "seg_set (split_comma gga_short) 10" "\<not> seg_set (split_comma gga_short) 11"
    "seg_set (split_comma gga_no_unit) 8" "\<not> seg_set (split_comma gga_no_unit) 9"
    "\<not> seg_set (split_comma ''123519,4807.038,N,01131.000,E,1'') 8"
    "\<not> seg_set (split_comma ''123519,4807.038,N,01131.000,E,1'') 10"
    by (simp_all add: seg_set_def gga_short_def gga_no_unit_def)
  have v: "f_alt (snd (Location_set ''$GPGGA'' gga_short Location_init)) =
     Some \<lparr>val = 1789.4, unit = ''F'', time = (12, 35, 19)\<rparr>"
    "f_height (snd (Location_set ''$GPGGA'' gga_short Location_init)) =
     Some \<lparr>val = 46.9, unit = ''M'', time = (12, 35, 19)\<rparr>"
    "f_alt (snd (Location_set ''$GPGGA'' gga_no_unit Location_init)) =
     Some \<lparr>val = 545.4, unit = ''M'', time = (12, 35, 19)\<rparr>"
    by (simp_all add: evals)
  have a1: "f_alt (snd (Location_set ''$GPGGA'' gga_short Location_init)) =
     Some \<lparr>val = 1789.4, unit = ''F'', time = (12, 35, 19)\<rparr>"
    using gga_altitude_height_units [of gga_short Location_init True
        "snd (Location_set ''$GPGGA'' gga_short Location_init)" "split_comma gga_short"]
      r1 g(1) p(1) v(1) by simp
  have h1: "f_height (snd (Location_set ''$GPGGA'' gga_short Location_init)) =
     Some \<lparr>val = 46.9, unit = ''M'', time = (12, 35, 19)\<rparr>"
    using gga_altitude_height_units [of gga_short Location_init True
        "snd (Location_set ''$GPGGA'' gga_short Location_init)" "split_comma gga_short"]
      r1 g(1) p(3,4) v(2) by simp
  have a2: "f_alt (snd (Location_set ''$GPGGA'' gga_no_unit Location_init)) =
     Some \<lparr>val = 545.4, unit = ''M'', time = (12, 35, 19)\<rparr>"
    using gga_altitude_height_units [of gga_no_unit Location_init True
        "snd (Location_set ''$GPGGA'' gga_no_unit Location_init)" "split_comma gga_no_unit"]
      r2 g(2) p(5) v(3) by simp
  show ?thesis
    by (intro conjI) (fact r1 r2 r3 g p a1 h1 a2)+
qed

end
